theory Spec2Isabelle
  imports Complex_Main
begin

section \<open>Performance drift monitor (src/services/model_monitoring_service.py)\<close>

text \<open>
  Python floats are modelled as \<open>real\<close> numbers: the comparisons and the
  arithmetic of the source are kept, rounding is not.  Dictionaries whose
  iteration order or emptiness test the code relies on are association lists
  read with \<open>map_of\<close>; the clock (\<open>datetime.utcnow()\<close>) is an argument.
\<close>

record ModelPerformanceMetrics =
  model_name :: string
  timestamp :: nat
  accuracy :: real
  confidence :: real
  processing_time :: real
  error_rate :: real
  throughput :: real
  latency_p95 :: real
  latency_p99 :: real

record ModelDriftAlert =
  alert_model_name :: string
  metric_name :: string
  current_value :: real
  baseline_value :: real
  drift_percentage :: real
  severity :: string
  alert_timestamp :: nat

type_synonym metrics_dict = "(string \<times> real) list"

record ModelMonitoringService =
  performance_history :: "(string \<times> ModelPerformanceMetrics list) list"
  baseline_metrics :: "string \<rightharpoonup> metrics_dict"
  drift_thresholds :: "(string \<times> real) list"
  alert_history :: "ModelDriftAlert list"

text \<open>\<open>deque(maxlen=n).append(x)\<close>: the oldest entries fall off the left end.\<close>

definition deque_append :: "nat \<Rightarrow> 'a list \<Rightarrow> 'a \<Rightarrow> 'a list" where
  "deque_append maxlen xs x = (let ys = xs @ [x] in drop (length ys - maxlen) ys)"

text \<open>\<open>d.get(k, 0)\<close> on a metrics dictionary.\<close>

definition dict_get :: "metrics_dict \<Rightarrow> string \<Rightarrow> real" where
  "dict_get d k = (case map_of d k of None \<Rightarrow> 0 | Some v \<Rightarrow> v)"

text \<open>The constructor's threshold table, in its insertion order.\<close>

definition default_drift_thresholds :: "(string \<times> real) list" where
  "default_drift_thresholds =
     [(''accuracy'', 5 / 100), (''confidence'', 10 / 100),
      (''processing_time'', 20 / 100), (''error_rate'', 15 / 100)]"

definition init_monitor :: ModelMonitoringService where
  "init_monitor = \<lparr>performance_history = [], baseline_metrics = Map.empty,
     drift_thresholds = default_drift_thresholds, alert_history = []\<rparr>"

text \<open>\<open>numpy.mean\<close> of a non-empty list.\<close>

definition np_mean :: "real list \<Rightarrow> real" where
  "np_mean xs = sum_list xs / real (length xs)"

text \<open>
  \<open>numpy.percentile(xs, q)\<close> with numpy's default linear interpolation between
  the two closest ranks of the sorted data.
\<close>

definition np_percentile :: "real list \<Rightarrow> real \<Rightarrow> real" where
  "np_percentile xs q =
     (let s = sort xs;
          rank = q / 100 * real (length s - 1);
          lo = nat \<lfloor>rank\<rfloor>;
          hi = min (lo + 1) (length s - 1)
      in s ! lo + (rank - real lo) * (s ! hi - s ! lo))"

definition calculate_metrics_average :: "ModelPerformanceMetrics list \<Rightarrow> metrics_dict" where
  "calculate_metrics_average metrics_list =
     (if metrics_list = [] then []
      else [(''accuracy'', np_mean (map accuracy metrics_list)),
            (''confidence'', np_mean (map confidence metrics_list)),
            (''processing_time'', np_mean (map processing_time metrics_list)),
            (''error_rate'', np_mean (map error_rate metrics_list)),
            (''throughput'', np_mean (map throughput metrics_list)),
            (''latency_p95'', np_percentile (map latency_p95 metrics_list) 95),
            (''latency_p99'', np_percentile (map latency_p99 metrics_list) 99)])"

definition determine_severity :: "real \<Rightarrow> real \<Rightarrow> string" where
  "determine_severity drift threshold =
     (if drift > threshold * 3 then ''critical''
      else if drift > threshold * 2 then ''high''
      else if drift > threshold * (3 / 2) then ''medium''
      else ''low'')"

text \<open>The drift fraction of one metric (the branch on the metric's name).\<close>

definition drift_fraction :: "string \<Rightarrow> real \<Rightarrow> real \<Rightarrow> real" where
  "drift_fraction mname cur base =
     (if mname \<in> set [''processing_time'', ''error_rate'']
      then (cur - base) / base
      else (base - cur) / base)"

text \<open>
  The body of the inner loop of \<open>_check_model_drift\<close> for one
  \<open>(metric_name, threshold)\<close> item.  \<open>_handle_drift_alert\<close> only logs and
  reports to external collectors, and catches its own exceptions.
\<close>

definition check_metric ::
  "nat \<Rightarrow> string \<Rightarrow> metrics_dict \<Rightarrow> metrics_dict \<Rightarrow> string \<times> real
     \<Rightarrow> ModelMonitoringService \<Rightarrow> ModelMonitoringService" where
  "check_metric now name current baseline item m =
     (let mname = fst item; threshold = snd item;
          cur = dict_get current mname;
          base = dict_get baseline mname
      in if base = 0 then m
         else let drift = drift_fraction mname cur base
              in if drift > threshold
                 then m\<lparr>alert_history := deque_append 100 (alert_history m)
                        \<lparr>alert_model_name = name, metric_name = mname,
                         current_value = cur, baseline_value = base,
                         drift_percentage = drift,
                         severity = determine_severity drift threshold,
                         alert_timestamp = now\<rparr>\<rparr>
                 else m)"

text \<open>The body of the outer loop for one \<open>(model_name, history)\<close> item.\<close>

definition check_one_model ::
  "nat \<Rightarrow> string \<times> ModelPerformanceMetrics list
     \<Rightarrow> ModelMonitoringService \<Rightarrow> ModelMonitoringService" where
  "check_one_model now item m =
     (let name = fst item; history = snd item
      in if length history < 10 then m
         else let recent_metrics = drop (length history - 100) history;
                  current_metrics = calculate_metrics_average recent_metrics;
                  baseline = (case baseline_metrics m name of None \<Rightarrow> [] | Some b \<Rightarrow> b)
              in if baseline = []
                 then m\<lparr>baseline_metrics := (baseline_metrics m)(name \<mapsto> current_metrics)\<rparr>
                 else fold (check_metric now name current_metrics baseline)
                        (drift_thresholds m) m)"

definition check_model_drift :: "nat \<Rightarrow> ModelMonitoringService \<Rightarrow> ModelMonitoringService" where
  "check_model_drift now m = fold (check_one_model now) (performance_history m) m"

text \<open>
  \<open>record_model_performance\<close>: the history of a model is a
  \<open>deque(maxlen=1000)\<close> created on first use (\<open>defaultdict\<close>); the reports to
  external collectors are left out.
\<close>

fun history_append ::
  "string \<Rightarrow> ModelPerformanceMetrics
     \<Rightarrow> (string \<times> ModelPerformanceMetrics list) list
     \<Rightarrow> (string \<times> ModelPerformanceMetrics list) list" where
  "history_append name x [] = [(name, deque_append 1000 [] x)]"
| "history_append name x ((k, h) # rest) =
     (if k = name then (k, deque_append 1000 h x) # rest
      else (k, h) # history_append name x rest)"

definition record_model_performance ::
  "nat \<Rightarrow> string \<Rightarrow> real \<Rightarrow> real \<Rightarrow> real \<Rightarrow> bool
     \<Rightarrow> ModelMonitoringService \<Rightarrow> ModelMonitoringService" where
  "record_model_performance now name acc conf ptime error_occurred m =
     m\<lparr>performance_history := history_append name
        \<lparr>model_name = name, timestamp = now, accuracy = acc, confidence = conf,
         processing_time = ptime,
         error_rate = (if error_occurred then 1 else 0),
         throughput = (if ptime > 0 then 1 / ptime else 0),
         latency_p95 = ptime, latency_p99 = ptime\<rparr>
        (performance_history m)\<rparr>"

section \<open>Audio stream buffer (src/services/streaming/audio_processor.py)\<close>

text \<open>
  \<open>bytes\<close> values are lists of octets.  Every public method of the processor wraps its
  body in \<open>try ... except Exception\<close>; the exceptions the body can raise are values of
  \<open>py_error\<close>, and the state reached when one is raised keeps the mutations made
  before it, as the object does.
\<close>

type_synonym bytes = "nat list"

datatype py_error = IndexError | KeyError | RuntimeError | ConnectionClosed | OtherException

record AudioStreamProcessor =
  buffer_size :: int
  audio_buffers :: "string \<rightharpoonup> bytes list"
  total_chunks_processed :: int
  total_audio_duration :: real
  average_chunk_size :: real
  buffer_overflows :: int

definition init_processor :: "int \<Rightarrow> AudioStreamProcessor" where
  "init_processor capacity = \<lparr>buffer_size = capacity, audio_buffers = Map.empty,
     total_chunks_processed = 0, total_audio_duration = 0, average_chunk_size = 0,
     buffer_overflows = 0\<rparr>"

text \<open>The list stored for a session; \<open>[]\<close> when the session has no entry.\<close>

definition buffer_of :: "AudioStreamProcessor \<Rightarrow> string \<Rightarrow> bytes list" where
  "buffer_of p session_id = (case audio_buffers p session_id of None \<Rightarrow> [] | Some b \<Rightarrow> b)"

text \<open>
  The body of \<open>add_audio_chunk\<close> under the lock.  \<open>list.pop(0)\<close> raises
  \<open>IndexError\<close> on an empty list, which happens when \<open>buffer_size \<le> 0\<close>.
\<close>

definition add_audio_chunk_body ::
  "string \<Rightarrow> bytes \<Rightarrow> AudioStreamProcessor \<Rightarrow> py_error option \<times> AudioStreamProcessor" where
  "add_audio_chunk_body session_id audio_chunk p =
     (let p1 = (if audio_buffers p session_id = None
                then p\<lparr>audio_buffers := (audio_buffers p)(session_id \<mapsto> [])\<rparr> else p);
          buf = buffer_of p1 session_id
      in if int (length buf) \<ge> buffer_size p1 \<and> buf = [] then (Some IndexError, p1)
         else
           let p2 = (if int (length buf) \<ge> buffer_size p1
                     then p1\<lparr>audio_buffers := (audio_buffers p1)(session_id \<mapsto> tl buf),
                             buffer_overflows := buffer_overflows p1 + 1\<rparr>
                     else p1);
               p3 = p2\<lparr>audio_buffers :=
                        (audio_buffers p2)(session_id \<mapsto> buffer_of p2 session_id @ [audio_chunk])\<rparr>;
               total_chunks = total_chunks_processed p3 + 1;
               chunk_size = length audio_chunk;
               current_avg = average_chunk_size p3
           in (None, p3\<lparr>total_chunks_processed := total_chunks,
                         average_chunk_size :=
                           (current_avg * real_of_int (total_chunks - 1) + real chunk_size)
                             / real_of_int total_chunks\<rparr>))"

definition add_audio_chunk ::
  "string \<Rightarrow> bytes \<Rightarrow> AudioStreamProcessor \<Rightarrow> bool \<times> AudioStreamProcessor" where
  "add_audio_chunk session_id audio_chunk p =
     (case add_audio_chunk_body session_id audio_chunk p of
        (None, p') \<Rightarrow> (True, p')
      | (Some e, p') \<Rightarrow> (False, p'))"

definition get_audio_chunks ::
  "string \<Rightarrow> bool \<Rightarrow> AudioStreamProcessor \<Rightarrow> bytes list \<times> AudioStreamProcessor" where
  "get_audio_chunks session_id clear_buffer p =
     (case audio_buffers p session_id of
        None \<Rightarrow> ([], p)
      | Some chunks \<Rightarrow>
          (chunks, if clear_buffer
                   then p\<lparr>audio_buffers := (audio_buffers p)(session_id \<mapsto> [])\<rparr> else p))"

definition get_combined_audio ::
  "string \<Rightarrow> bool \<Rightarrow> AudioStreamProcessor \<Rightarrow> bytes \<times> AudioStreamProcessor" where
  "get_combined_audio session_id clear_buffer p =
     (case get_audio_chunks session_id clear_buffer p of (chunks, p') \<Rightarrow> (concat chunks, p'))"

text \<open>
  A producer calling \<open>add_audio_chunk\<close> once per chunk, in order: the return values
  and the processor after the last call.
\<close>

fun add_audio_chunks ::
  "string \<Rightarrow> bytes list \<Rightarrow> AudioStreamProcessor \<Rightarrow> bool list \<times> AudioStreamProcessor" where
  "add_audio_chunks session_id [] p = ([], p)"
| "add_audio_chunks session_id (c # cs) p =
     (case add_audio_chunk session_id c p of
        (r, p') \<Rightarrow> (case add_audio_chunks session_id cs p' of (rs, p'') \<Rightarrow> (r # rs, p'')))"

section \<open>Connection manager (src/services/streaming/connection_manager.py)\<close>

text \<open>
  A transport is described by what its \<open>accept\<close> and \<open>send\<close> do.  The frames that
  \<open>websocket.send\<close> writes are collected in \<open>wire\<close>, as pairs of the transport's name and
  the text sent; this field stands for the network and is not an attribute of the
  object.  Identifiers drawn from \<open>uuid.uuid4()\<close> and readings of \<open>time.time()\<close> are
  arguments.
\<close>

datatype send_behaviour = Delivers | RaisesConnectionClosed | RaisesOther

record websocket =
  ws_name :: string
  user_agent :: string
  remote_address :: string
  accept_raises :: bool
  on_send :: send_behaviour

record session_info =
  session_id :: string
  user_id :: "string option"
  connected_at :: nat
  last_activity :: nat
  audio_chunks_received :: int
  transcriptions_sent :: int
  connection_count :: int

record metadata =
  md_user_agent :: string
  md_remote_addr :: string
  md_connected_at :: nat

text \<open>
  The value of \<open>session_connections\<close> is a Python \<open>set\<close>; it is kept as a duplicate-free
  list in the order in which the set is iterated, which the interpreter's hashing
  decides.
\<close>

record ConnectionManager =
  active_connections :: "string \<rightharpoonup> websocket"
  connection_sessions :: "string \<rightharpoonup> session_info"
  session_connections :: "string \<rightharpoonup> string list"
  connection_metadata :: "string \<rightharpoonup> metadata"
  stat_total_connections :: int
  stat_active_connections :: int
  stat_total_sessions :: int
  stat_active_sessions :: int
  wire :: "(string \<times> string) list"

definition init_manager :: ConnectionManager where
  "init_manager = \<lparr>active_connections = Map.empty, connection_sessions = Map.empty,
     session_connections = Map.empty, connection_metadata = Map.empty,
     stat_total_connections = 0, stat_active_connections = 0,
     stat_total_sessions = 0, stat_active_sessions = 0, wire = []\<rparr>"

definition set_add :: "'a \<Rightarrow> 'a list \<Rightarrow> 'a list" where
  "set_add x xs = (if x \<in> set xs then xs else xs @ [x])"

definition set_discard :: "'a \<Rightarrow> 'a list \<Rightarrow> 'a list" where
  "set_discard x xs = filter (\<lambda>y. y \<noteq> x) xs"

text \<open>The connections of a session as the set object holds them now.\<close>

definition connections_of :: "ConnectionManager \<Rightarrow> string \<Rightarrow> string list" where
  "connections_of m sid = (case session_connections m sid of None \<Rightarrow> [] | Some cs \<Rightarrow> cs)"

text \<open>
  \<open>add_connection\<close>, with the two generated identifiers as arguments.  An exception of
  \<open>websocket.accept()\<close> is re-raised before anything is stored.
\<close>

definition add_connection ::
  "nat \<Rightarrow> string \<Rightarrow> string \<Rightarrow> websocket \<Rightarrow> string option \<Rightarrow> ConnectionManager
     \<Rightarrow> py_error + ((string \<times> string) \<times> ConnectionManager)" where
  "add_connection now connection_id sid ws user m =
     (if accept_raises ws then Inl OtherException
      else
        let info = \<lparr>session_id = sid, user_id = user, connected_at = now,
                     last_activity = now, audio_chunks_received = 0,
                     transcriptions_sent = 0, connection_count = 1\<rparr>;
            m1 = m\<lparr>active_connections := (active_connections m)(connection_id \<mapsto> ws),
                   connection_sessions := (connection_sessions m)(connection_id \<mapsto> info)\<rparr>;
            m2 = (case session_connections m1 sid of
                    None \<Rightarrow>
                      m1\<lparr>session_connections := (session_connections m1)(sid \<mapsto> []),
                         stat_total_sessions := stat_total_sessions m1 + 1,
                         stat_active_sessions := stat_active_sessions m1 + 1\<rparr>
                  | Some conns \<Rightarrow>
                      (case find (\<lambda>c. connection_sessions m1 c \<noteq> None) conns of
                         None \<Rightarrow> m1
                       | Some c \<Rightarrow>
                           (case connection_sessions m1 c of
                              None \<Rightarrow> m1
                            | Some i \<Rightarrow>
                                m1\<lparr>connection_sessions := (connection_sessions m1)
                                     (c \<mapsto> i\<lparr>connection_count := connection_count i + 1\<rparr>)\<rparr>)));
            m3 = m2\<lparr>session_connections := (session_connections m2)
                       (sid \<mapsto> set_add connection_id (connections_of m2 sid)),
                    connection_metadata := (connection_metadata m2)
                       (connection_id \<mapsto> \<lparr>md_user_agent = user_agent ws,
                          md_remote_addr = remote_address ws, md_connected_at = now\<rparr>),
                    stat_total_connections := stat_total_connections m2 + 1,
                    stat_active_connections := stat_active_connections m2 + 1\<rparr>
        in Inr ((connection_id, sid), m3))"

text \<open>
  \<open>remove_connection\<close>.  The session id read from \<open>connection_sessions\<close> is \<open>None\<close> when
  the connection has no entry there; the test \<open>session_id and \<dots>\<close> also fails on the
  empty string.
\<close>

definition remove_connection ::
  "string \<Rightarrow> ConnectionManager \<Rightarrow> string option \<times> ConnectionManager" where
  "remove_connection connection_id m =
     (if active_connections m connection_id = None then (None, m)
      else
        let sid_opt = map_option session_id (connection_sessions m connection_id);
            m1 = m\<lparr>active_connections := (active_connections m)(connection_id := None),
                   connection_sessions := (connection_sessions m)(connection_id := None)\<rparr>;
            m2 = (case sid_opt of
                    None \<Rightarrow> m1
                  | Some sid \<Rightarrow>
                      (case session_connections m1 sid of
                         None \<Rightarrow> m1
                       | Some conns \<Rightarrow>
                           if sid = [] then m1
                           else if set_discard connection_id conns = []
                           then m1\<lparr>session_connections := (session_connections m1)(sid := None),
                                   stat_active_sessions := stat_active_sessions m1 - 1\<rparr>
                           else m1\<lparr>session_connections := (session_connections m1)
                                     (sid \<mapsto> set_discard connection_id conns)\<rparr>));
            m3 = m2\<lparr>connection_metadata := (connection_metadata m2)(connection_id := None),
                    stat_active_connections := stat_active_connections m2 - 1\<rparr>
        in (sid_opt, m3))"

text \<open>
  \<open>send_message\<close>: a closed transport removes the connection; any other exception of
  \<open>send\<close> is logged; both return \<open>False\<close>.
\<close>

definition send_message ::
  "nat \<Rightarrow> string \<Rightarrow> string \<Rightarrow> ConnectionManager \<Rightarrow> bool \<times> ConnectionManager" where
  "send_message now connection_id message m =
     (case active_connections m connection_id of
        None \<Rightarrow> (False, m)
      | Some ws \<Rightarrow>
          (case on_send ws of
             Delivers \<Rightarrow>
               (True,
                m\<lparr>wire := wire m @ [(ws_name ws, message)],
                  connection_sessions :=
                    (case connection_sessions m connection_id of
                       None \<Rightarrow> connection_sessions m
                     | Some i \<Rightarrow> (connection_sessions m)
                         (connection_id \<mapsto> i\<lparr>last_activity := now\<rparr>))\<rparr>)
           | RaisesConnectionClosed \<Rightarrow> (False, snd (remove_connection connection_id m))
           | RaisesOther \<Rightarrow> (False, m)))"

text \<open>
  The \<open>for\<close> loop of \<open>broadcast_to_session\<close>.  The loop iterates the session's set
  object itself, and \<open>send_message\<close> may discard from that object: the set iterator
  compares the set's size with the size it had when the iteration began, each time the
  next element is requested, and raises \<open>RuntimeError\<close> when they differ.  \<open>n\<close> is that
  initial size, the list argument holds the elements not yet visited.  A set object
  that was deleted from the dictionary had been emptied before, which
  \<open>connections_of\<close> reports as well.
\<close>

fun broadcast_loop ::
  "nat \<Rightarrow> string \<Rightarrow> string \<Rightarrow> nat \<Rightarrow> string list \<Rightarrow> int \<Rightarrow> ConnectionManager
     \<Rightarrow> py_error option \<times> int \<times> ConnectionManager" where
  "broadcast_loop now sid message n [] sent_count m =
     (if length (connections_of m sid) \<noteq> n then (Some RuntimeError, sent_count, m)
      else (None, sent_count, m))"
| "broadcast_loop now sid message n (c # cs) sent_count m =
     (if length (connections_of m sid) \<noteq> n then (Some RuntimeError, sent_count, m)
      else case send_message now c message m of
             (ok, m') \<Rightarrow>
               broadcast_loop now sid message n cs
                 (if ok then sent_count + 1 else sent_count) m')"

text \<open>
  \<open>broadcast_to_session\<close>: an exception of the loop is caught and logged, and the count
  reached so far is returned.
\<close>

definition broadcast_to_session ::
  "nat \<Rightarrow> string \<Rightarrow> string \<Rightarrow> ConnectionManager \<Rightarrow> int \<times> ConnectionManager" where
  "broadcast_to_session now sid message m =
     (case session_connections m sid of
        None \<Rightarrow> (0, m)
      | Some conns \<Rightarrow>
          (case broadcast_loop now sid message (length conns) conns 0 m of
             (e, sent_count, m') \<Rightarrow> (sent_count, m')))"

section \<open>Transcription engine (src/services/openai_whisper_service.py)\<close>

text \<open>
  To its callers the engine is a callee that returns a dictionary, whose keys may be
  absent, or raises; the callers are written against any such callee, which is their
  argument.  The service that the program installs follows below.
\<close>

record engine_result =
  res_text :: "string option"
  res_confidence :: "real option"
  res_language :: "string option"
  res_error :: "string option"

datatype engine_outcome = Returns engine_result | Raises string

type_synonym engine = "bytes \<Rightarrow> string \<Rightarrow> engine_outcome"

text \<open>
  Python's \<open>str.strip()\<close>; a \<open>char\<close> stands for the code point of the same number, and
  the characters below 256 that Python counts as whitespace are removed from both ends.
\<close>

definition is_space :: "char \<Rightarrow> bool" where
  "is_space c = (c \<in> set [CHR 0x09, CHR 0x0A, CHR 0x0B, CHR 0x0C, CHR 0x0D,
     CHR 0x1C, CHR 0x1D, CHR 0x1E, CHR 0x1F, CHR '' '', CHR 0x85, CHR 0xA0])"

definition strip :: "string \<Rightarrow> string" where
  "strip s = rev (dropWhile is_space (rev (dropWhile is_space s)))"

text \<open>
  \<open>OpenAIWhisperService\<close>.  \<open>client\<close> is \<open>None\<close> when no API key was given; otherwise it is
  what the remote API does with an audio file and a language: it answers with a
  transcript text or raises.  Writing the temporary file happens inside the same \<open>try\<close>
  statement, so its exceptions count as \<open>ApiRaises\<close> too.  \<open>mock_text\<close> and
  \<open>mock_confidence\<close> are what the \<open>random\<close> module draws for a mock response.
\<close>

datatype api_outcome = ApiTranscript string | ApiRaises string

record OpenAIWhisperService =
  client :: "(bytes \<Rightarrow> string \<Rightarrow> api_outcome) option"
  mock_text :: string
  mock_confidence :: real

text \<open>
  \<open>transcribe_audio_bytes\<close>: without a client the mock response; with one, the transcript
  with confidence 0.9 (0.0 for an empty text), and for every exception a dictionary that
  carries the key \<open>error\<close>.  The method itself raises nothing.
\<close>

definition transcribe_audio_bytes :: "OpenAIWhisperService \<Rightarrow> engine" where
  "transcribe_audio_bytes svc audio_bytes language =
     (case client svc of
        None \<Rightarrow>
          Returns \<lparr>res_text = Some (mock_text svc), res_confidence = Some (mock_confidence svc),
                   res_language = Some language, res_error = None\<rparr>
      | Some api \<Rightarrow>
          (case api audio_bytes language of
             ApiTranscript transcript_text \<Rightarrow>
               Returns \<lparr>res_text = Some (strip transcript_text),
                        res_confidence = Some (if strip transcript_text \<noteq> [] then 9 / 10 else 0),
                        res_language = Some language, res_error = None\<rparr>
           | ApiRaises msg \<Rightarrow>
               Returns \<lparr>res_text = Some [], res_confidence = Some 0,
                        res_language = Some language, res_error = Some msg\<rparr>))"

section \<open>Queue bridge (src/services/kafka_stream_service.py)\<close>

text \<open>The audio message of the queue schema, as the dictionary built by the sender.\<close>

record audio_chunk =
  ac_session_id :: string
  ac_user_id :: string
  ac_chunk_id :: string
  ac_audio_data :: bytes
  ac_sample_rate :: int
  ac_channels :: int
  ac_format :: string
  ac_timestamp :: int
  ac_language :: string
  ac_chunk_index :: int
  ac_is_final :: bool

record transcription_result =
  tr_session_id :: string
  tr_user_id :: string
  tr_chunk_id :: string
  tr_text :: string
  tr_confidence :: real
  tr_language :: string
  tr_timestamp :: int
  tr_processing_time :: real
  tr_model_name :: string
  tr_status :: string
  tr_error_message :: "string option"

record kafka_session =
  ks_user_id :: string
  ks_start_time :: int
  ks_chunks_sent :: int
  ks_chunks_processed :: int
  ks_total_audio_duration :: real

text \<open>The started producer, or \<open>None\<close>; its \<open>send\<close> may raise.\<close>

record kafka_producer =
  send_raises :: bool

text \<open>
  Besides the attributes of the service the record holds what the service does to its
  surroundings: the values handed to \<open>producer.send\<close> per topic, the arguments of the
  calls of \<open>_process_audio_chunk\<close> and of the engine, and the module-level monitor.
\<close>

record KafkaStreamService =
  producer :: "kafka_producer option"
  active_sessions :: "string \<rightharpoonup> kafka_session"
  ps_total_chunks_processed :: int
  ps_successful_transcriptions :: int
  ps_failed_transcriptions :: int
  ps_average_processing_time :: real
  ps_total_audio_duration :: real
  audio_topic :: "(string \<times> audio_chunk) list"
  transcription_topic :: "(string \<times> transcription_result) list"
  process_calls :: "audio_chunk list"
  kafka_engine_calls :: "(bytes \<times> string) list"
  kafka_monitor :: ModelMonitoringService

definition init_kafka :: "kafka_producer option \<Rightarrow> KafkaStreamService" where
  "init_kafka p = \<lparr>producer = p, active_sessions = Map.empty,
     ps_total_chunks_processed = 0, ps_successful_transcriptions = 0,
     ps_failed_transcriptions = 0, ps_average_processing_time = 0,
     ps_total_audio_duration = 0, audio_topic = [], transcription_topic = [],
     process_calls = [], kafka_engine_calls = [], kafka_monitor = init_monitor\<rparr>"

definition opt_get :: "'a option \<Rightarrow> 'a \<Rightarrow> 'a" where
  "opt_get v d = (case v of None \<Rightarrow> d | Some x \<Rightarrow> x)"

text \<open>\<open>_send_transcription_result\<close>: nothing without a producer; its exceptions are logged.\<close>

definition kafka_send_transcription_result ::
  "transcription_result \<Rightarrow> KafkaStreamService \<Rightarrow> KafkaStreamService" where
  "kafka_send_transcription_result r k =
     (case producer k of
        None \<Rightarrow> k
      | Some p \<Rightarrow>
          if send_raises p then k
          else k\<lparr>transcription_topic := transcription_topic k @ [(tr_session_id r, r)]\<rparr>)"

text \<open>
  \<open>_process_audio_chunk\<close>.  \<open>now_ms\<close> and \<open>ptime\<close> are the clock readings; the
  engine's exception is caught and turned into an error result.
\<close>

definition process_audio_chunk ::
  "engine \<Rightarrow> int \<Rightarrow> real \<Rightarrow> audio_chunk \<Rightarrow> KafkaStreamService \<Rightarrow> KafkaStreamService" where
  "process_audio_chunk eng now_ms ptime chunk k =
     (let language = ac_language chunk;
          k0 = k\<lparr>process_calls := process_calls k @ [chunk],
                 kafka_engine_calls := kafka_engine_calls k @ [(ac_audio_data chunk, language)]\<rparr>
      in case eng (ac_audio_data chunk) language of
           Raises msg \<Rightarrow>
             kafka_send_transcription_result
               \<lparr>tr_session_id = ac_session_id chunk, tr_user_id = ac_user_id chunk,
                tr_chunk_id = ac_chunk_id chunk, tr_text = [], tr_confidence = 0,
                tr_language = language, tr_timestamp = now_ms, tr_processing_time = ptime,
                tr_model_name = ''whisper'', tr_status = ''error'',
                tr_error_message = Some msg\<rparr> k0
         | Returns result \<Rightarrow>
             let has_error = (res_error result \<noteq> None);
                 k1 = k0\<lparr>kafka_monitor := record_model_performance (nat now_ms) ''whisper_kafka''
                          (opt_get (res_confidence result) 0) (opt_get (res_confidence result) 0)
                          ptime has_error (kafka_monitor k0)\<rparr>;
                 k2 = k1\<lparr>ps_total_chunks_processed := ps_total_chunks_processed k1 + 1,
                         ps_total_audio_duration := ps_total_audio_duration k1 + ptime\<rparr>;
                 k3 = (if \<not> has_error
                       then k2\<lparr>ps_successful_transcriptions := ps_successful_transcriptions k2 + 1\<rparr>
                       else k2\<lparr>ps_failed_transcriptions := ps_failed_transcriptions k2 + 1\<rparr>);
                 k4 = (if ps_total_chunks_processed k3 > 0
                       then k3\<lparr>ps_average_processing_time :=
                               ps_total_audio_duration k3 / real_of_int (ps_total_chunks_processed k3)\<rparr>
                       else k3);
                 k5 = kafka_send_transcription_result
                        \<lparr>tr_session_id = ac_session_id chunk, tr_user_id = ac_user_id chunk,
                         tr_chunk_id = ac_chunk_id chunk,
                         tr_text = opt_get (res_text result) [],
                         tr_confidence = opt_get (res_confidence result) 0,
                         tr_language = opt_get (res_language result) language,
                         tr_timestamp = now_ms, tr_processing_time = ptime,
                         tr_model_name = ''whisper'',
                         tr_status = (if \<not> has_error then ''success'' else ''error''),
                         tr_error_message = res_error result\<rparr> k4
             in case active_sessions k5 (ac_session_id chunk) of
                  None \<Rightarrow> k5
                | Some s \<Rightarrow>
                    k5\<lparr>active_sessions := (active_sessions k5)(ac_session_id chunk \<mapsto>
                         s\<lparr>ks_chunks_processed := ks_chunks_processed s + 1,
                           ks_total_audio_duration := ks_total_audio_duration s + ptime\<rparr>)\<rparr>)"

text \<open>
  \<open>send_audio_chunk\<close>, with the generated chunk id and the clock as arguments.  Without
  a producer the dictionary goes to \<open>_process_audio_chunk\<close> in the same call; with one
  it is handed to \<open>producer.send\<close> under the session id as key, and an exception of
  \<open>send\<close> makes the method return \<open>False\<close>.
\<close>

definition send_audio_chunk ::
  "engine \<Rightarrow> string \<Rightarrow> int \<Rightarrow> real \<Rightarrow> string \<Rightarrow> string \<Rightarrow> bytes \<Rightarrow> int \<Rightarrow> int \<Rightarrow> string
     \<Rightarrow> string \<Rightarrow> int \<Rightarrow> bool \<Rightarrow> KafkaStreamService \<Rightarrow> bool \<times> KafkaStreamService" where
  "send_audio_chunk eng chunk_id now_ms ptime sid uid audio_data sample_rate channels fmt
       language chunk_index is_final k =
     (let audio_chunk_data =
            \<lparr>ac_session_id = sid, ac_user_id = uid, ac_chunk_id = chunk_id,
             ac_audio_data = audio_data, ac_sample_rate = sample_rate,
             ac_channels = channels, ac_format = fmt, ac_timestamp = now_ms,
             ac_language = language, ac_chunk_index = chunk_index, ac_is_final = is_final\<rparr>
      in case producer k of
           None \<Rightarrow> (True, process_audio_chunk eng now_ms ptime audio_chunk_data k)
         | Some p \<Rightarrow>
             if send_raises p then (False, k)
             else
               let k1 = k\<lparr>audio_topic := audio_topic k @ [(sid, audio_chunk_data)]\<rparr>;
                   s = (case active_sessions k1 sid of
                          None \<Rightarrow> \<lparr>ks_user_id = uid, ks_start_time = now_ms, ks_chunks_sent = 0,
                                    ks_chunks_processed = 0, ks_total_audio_duration = 0\<rparr>
                        | Some s0 \<Rightarrow> s0)
               in (True, k1\<lparr>active_sessions := (active_sessions k1)
                             (sid \<mapsto> s\<lparr>ks_chunks_sent := ks_chunks_sent s + 1\<rparr>)\<rparr>))"



section \<open>Streaming dispatcher and sessions (src/services/realtime_streaming_service.py)\<close>

text \<open>
  Outgoing messages are a datatype with one constructor per \<open>type\<close> value; their
  \<open>timestamp\<close> entries are left out.  Incoming messages are binary frames or text
  frames; a text frame is invalid JSON, JSON that is not an object, or an object with
  its \<open>type\<close> entry.
\<close>

record stream_session =
  ss_session_id :: string
  ss_user_id :: "string option"
  ss_connected_at :: nat
  ss_audio_chunks_received :: int
  ss_transcriptions_sent :: int
  ss_last_activity :: nat

record transcription_data =
  td_session_id :: string
  td_text :: string
  td_confidence :: real
  td_language :: string
  td_processing_time :: real

record session_status =
  st_session_id :: string
  st_active_connections :: nat
  st_audio_chunks_buffered :: nat
  st_text_subscribers :: nat
  st_connection :: "stream_session option"

datatype frame =
    ConnectionEstablished string string
  | AudioReceived string nat
  | Pong
  | Status string session_status
  | TextSubscribed string
  | TextUnsubscribed string
  | ErrorMessage string
  | Transcription transcription_data
  | Keepalive

datatype json_message = InvalidJson | NotAnObject | Object "string option"

datatype incoming = Binary bytes | Text json_message

text \<open>
  The service's attributes, followed by its surroundings: the frames written to
  transports (\<open>rs_wire\<close>), the calls of the transcription engine, and the two module-level
  services it reports to.
\<close>

record RealtimeStreamingService =
  rs_active_connections :: "string \<rightharpoonup> websocket"
  rs_connection_sessions :: "string \<rightharpoonup> stream_session"
  rs_session_connections :: "string \<rightharpoonup> string list"
  rs_audio_buffers :: "string \<rightharpoonup> bytes list"
  text_subscribers :: "string \<rightharpoonup> string list"
  text_queue :: "string \<rightharpoonup> transcription_data list"
  rs_total_connections :: int
  rs_stat_active_connections :: int
  total_audio_chunks :: int
  total_transcriptions :: int
  average_processing_time :: real
  rs_wire :: "(string \<times> frame) list"
  engine_calls :: "(bytes \<times> string) list"
  model_monitoring_service :: ModelMonitoringService
  kafka_stream_service :: KafkaStreamService

definition init_service :: RealtimeStreamingService where
  "init_service = \<lparr>rs_active_connections = Map.empty, rs_connection_sessions = Map.empty,
     rs_session_connections = Map.empty, rs_audio_buffers = Map.empty,
     text_subscribers = Map.empty, text_queue = Map.empty,
     rs_total_connections = 0, rs_stat_active_connections = 0, total_audio_chunks = 0,
     total_transcriptions = 0, average_processing_time = 0, rs_wire = [], engine_calls = [],
     model_monitoring_service = init_monitor, kafka_stream_service = init_kafka None\<rparr>"

definition default_language :: string where
  "default_language = ''en''"

text \<open>\<open>_send_message\<close> and \<open>_send_error\<close>: every exception of \<open>send\<close> is logged.\<close>

definition rs_send_message ::
  "websocket \<Rightarrow> frame \<Rightarrow> RealtimeStreamingService \<Rightarrow> RealtimeStreamingService" where
  "rs_send_message ws data w =
     (case on_send ws of
        Delivers \<Rightarrow> w\<lparr>rs_wire := rs_wire w @ [(ws_name ws, data)]\<rparr>
      | RaisesConnectionClosed \<Rightarrow> w
      | RaisesOther \<Rightarrow> w)"

definition send_error ::
  "websocket \<Rightarrow> string \<Rightarrow> RealtimeStreamingService \<Rightarrow> RealtimeStreamingService" where
  "send_error ws error_message w = rs_send_message ws (ErrorMessage error_message) w"

definition rs_connections_of :: "RealtimeStreamingService \<Rightarrow> string \<Rightarrow> string list" where
  "rs_connections_of w sid = (case rs_session_connections w sid of None \<Rightarrow> [] | Some cs \<Rightarrow> cs)"

text \<open>
  The first part of \<open>handle_websocket_connection\<close>, up to the start of the two tasks,
  with the generated ids as arguments.  When \<open>accept\<close> raises nothing is registered and
  the handler goes on to its \<open>finally\<close> clause, \<open>cleanup_connection\<close> below.
\<close>

definition connection_opened ::
  "nat \<Rightarrow> string \<Rightarrow> string \<Rightarrow> websocket \<Rightarrow> string option
     \<Rightarrow> RealtimeStreamingService \<Rightarrow> py_error option \<times> RealtimeStreamingService" where
  "connection_opened now connection_id sid ws user w =
     (if accept_raises ws then (Some OtherException, w)
      else
        let w1 = w\<lparr>rs_active_connections := (rs_active_connections w)(connection_id \<mapsto> ws),
                   rs_connection_sessions := (rs_connection_sessions w)(connection_id \<mapsto>
                     \<lparr>ss_session_id = sid, ss_user_id = user, ss_connected_at = now,
                      ss_audio_chunks_received = 0, ss_transcriptions_sent = 0,
                      ss_last_activity = now\<rparr>)\<rparr>;
            w2 = w1\<lparr>rs_session_connections := (rs_session_connections w1)
                       (sid \<mapsto> set_add connection_id (rs_connections_of w1 sid))\<rparr>;
            w3 = w2\<lparr>rs_audio_buffers := (rs_audio_buffers w2)(sid \<mapsto> []),
                    text_queue := (text_queue w2)(sid \<mapsto> []),
                    rs_total_connections := rs_total_connections w2 + 1,
                    rs_stat_active_connections := rs_stat_active_connections w2 + 1\<rparr>
        in (None, rs_send_message ws (ConnectionEstablished connection_id sid) w3))"

definition handle_audio_data ::
  "nat \<Rightarrow> bytes \<Rightarrow> string \<Rightarrow> string \<Rightarrow> RealtimeStreamingService \<Rightarrow> RealtimeStreamingService" where
  "handle_audio_data now audio_data sid connection_id w =
     (let w1 = (case rs_audio_buffers w sid of
                  None \<Rightarrow> w
                | Some b \<Rightarrow> w\<lparr>rs_audio_buffers := (rs_audio_buffers w)(sid \<mapsto> b @ [audio_data])\<rparr>);
          w2 = (case rs_connection_sessions w1 connection_id of
                  None \<Rightarrow> w1
                | Some i \<Rightarrow> w1\<lparr>rs_connection_sessions := (rs_connection_sessions w1)
                     (connection_id \<mapsto> i\<lparr>ss_audio_chunks_received := ss_audio_chunks_received i + 1,
                                         ss_last_activity := now\<rparr>)\<rparr>);
          w3 = w2\<lparr>total_audio_chunks := total_audio_chunks w2 + 1\<rparr>
      in case rs_active_connections w3 connection_id of
           None \<Rightarrow> w3
         | Some ws \<Rightarrow> rs_send_message ws (AudioReceived sid (length audio_data)) w3)"

definition get_session_status :: "string \<Rightarrow> RealtimeStreamingService \<Rightarrow> session_status" where
  "get_session_status sid w =
     \<lparr>st_session_id = sid,
      st_active_connections = length (rs_connections_of w sid),
      st_audio_chunks_buffered = length (opt_get (rs_audio_buffers w sid) []),
      st_text_subscribers = length (opt_get (text_subscribers w sid) []),
      st_connection =
        (case find (\<lambda>c. rs_connection_sessions w c \<noteq> None) (rs_connections_of w sid) of
           None \<Rightarrow> None
         | Some c \<Rightarrow> rs_connection_sessions w c)\<rparr>"

definition handle_text_message ::
  "websocket \<Rightarrow> string option \<Rightarrow> string \<Rightarrow> string
     \<Rightarrow> RealtimeStreamingService \<Rightarrow> RealtimeStreamingService" where
  "handle_text_message ws message_type connection_id sid w =
     (if message_type = Some ''ping'' then rs_send_message ws Pong w
      else if message_type = Some ''get_status''
      then rs_send_message ws (Status sid (get_session_status sid w)) w
      else if message_type = Some ''subscribe_text''
      then rs_send_message ws (TextSubscribed sid)
             (w\<lparr>text_subscribers := (text_subscribers w)
                  (sid \<mapsto> set_add connection_id (opt_get (text_subscribers w sid) []))\<rparr>)
      else if message_type = Some ''unsubscribe_text''
      then rs_send_message ws (TextUnsubscribed sid)
             (case text_subscribers w sid of
                None \<Rightarrow> w
              | Some subs \<Rightarrow> w\<lparr>text_subscribers := (text_subscribers w)
                                (sid \<mapsto> set_discard connection_id subs)\<rparr>)
      else send_error ws (''Unknown message type: '' @ opt_get message_type ''None'') w)"

definition handle_websocket_message ::
  "nat \<Rightarrow> websocket \<Rightarrow> incoming \<Rightarrow> string \<Rightarrow> string
     \<Rightarrow> RealtimeStreamingService \<Rightarrow> RealtimeStreamingService" where
  "handle_websocket_message now ws message connection_id sid w =
     (case message of
        Binary audio_data \<Rightarrow> handle_audio_data now audio_data sid connection_id w
      | Text InvalidJson \<Rightarrow> send_error ws ''Invalid JSON message'' w
      | Text NotAnObject \<Rightarrow> send_error ws ''Text message error'' w
      | Text (Object message_type) \<Rightarrow> handle_text_message ws message_type connection_id sid w)"

text \<open>
  \<open>_send_transcription_result\<close> of the dispatcher: the result goes to the session's text
  queue when there is one and, when the queue bridge has a producer, to the bridge.
\<close>

definition send_transcription_result ::
  "engine \<Rightarrow> string \<Rightarrow> nat \<Rightarrow> string \<Rightarrow> engine_result \<Rightarrow> real
     \<Rightarrow> RealtimeStreamingService \<Rightarrow> RealtimeStreamingService" where
  "send_transcription_result eng chunk_id now sid result ptime w =
     (let data = \<lparr>td_session_id = sid, td_text = opt_get (res_text result) [],
                  td_confidence = opt_get (res_confidence result) 0,
                  td_language = opt_get (res_language result) default_language,
                  td_processing_time = ptime\<rparr>;
          w1 = (case text_queue w sid of
                  None \<Rightarrow> w
                | Some q \<Rightarrow> w\<lparr>text_queue := (text_queue w)(sid \<mapsto> q @ [data])\<rparr>)
      in if producer (kafka_stream_service w1) \<noteq> None
         then w1\<lparr>kafka_stream_service :=
                   snd (send_audio_chunk eng chunk_id (int now * 1000) ptime sid ''realtime_user'' []
                          16000 1 ''wav'' (opt_get (res_language result) default_language) 0 True
                          (kafka_stream_service w1))\<rparr>
         else w1)"

text \<open>What one pass of the dispatcher's loop meets: the clock, and the engine's answer.\<close>

record cycle_env =
  ce_now :: nat
  ce_ptime :: real
  ce_engine :: engine
  ce_chunk_id :: string
  ce_arriving :: "bytes list"

text \<open>
  The body of the \<open>while\<close> loop of \<open>_process_audio_stream\<close>, up to the sleep.  An
  exception of the engine call leaves the body; the first component reports it.
\<close>

definition process_cycle ::
  "cycle_env \<Rightarrow> string \<Rightarrow> string \<Rightarrow> RealtimeStreamingService
     \<Rightarrow> py_error option \<times> RealtimeStreamingService" where
  "process_cycle e sid connection_id w =
     (let audio_chunks = (case rs_audio_buffers w sid of
                            None \<Rightarrow> []
                          | Some b \<Rightarrow> if b \<noteq> [] then b else []);
          w1 = (if audio_chunks \<noteq> []
                then w\<lparr>rs_audio_buffers := (rs_audio_buffers w)(sid \<mapsto> [])\<rparr> else w)
      in if audio_chunks = [] then (None, w1)
         else
           let combined_audio = concat audio_chunks;
               w2 = w1\<lparr>engine_calls := engine_calls w1 @ [(combined_audio, default_language)]\<rparr>
           in case ce_engine e combined_audio default_language of
                Raises msg \<Rightarrow> (Some OtherException, w2)
              | Returns result \<Rightarrow>
                  let has_error = (res_error result \<noteq> None);
                      w3 = w2\<lparr>model_monitoring_service :=
                              record_model_performance (ce_now e) ''whisper_realtime''
                                (opt_get (res_confidence result) 0)
                                (opt_get (res_confidence result) 0)
                                (ce_ptime e) has_error (model_monitoring_service w2)\<rparr>;
                      n = total_transcriptions w3 + 1;
                      w4 = w3\<lparr>total_transcriptions := n\<rparr>;
                      w5 = (if n > 0
                            then w4\<lparr>average_processing_time :=
                                    (average_processing_time w4 * real_of_int (n - 1) + ce_ptime e)
                                      / real_of_int n\<rparr>
                            else w4);
                      w6 = (if \<not> has_error \<and> strip (opt_get (res_text result) []) \<noteq> []
                            then send_transcription_result (ce_engine e) (ce_chunk_id e) (ce_now e)
                                   sid result (ce_ptime e) w5
                            else w5)
                  in (None,
                      case rs_connection_sessions w6 connection_id of
                        None \<Rightarrow> w6
                      | Some i \<Rightarrow> w6\<lparr>rs_connection_sessions := (rs_connection_sessions w6)
                           (connection_id \<mapsto>
                              i\<lparr>ss_transcriptions_sent := ss_transcriptions_sent i + 1\<rparr>)\<rparr>))"

text \<open>
  \<open>_process_audio_stream\<close>.  The loop has no bound of its own; it is run against a
  schedule with one entry per pass, and \<open>StillRunning\<close> is the answer when the schedule
  ends before the loop does.  During the sleep after a pass the connection's handler
  may store the chunks of \<open>ce_arriving\<close>.  The \<open>try\<close> statement encloses the whole loop:
  an exception raised in a pass is logged and the function returns.
\<close>

datatype loop_end = StillRunning | ConnectionGone | Stopped py_error

fun process_audio_stream ::
  "cycle_env list \<Rightarrow> string \<Rightarrow> string \<Rightarrow> RealtimeStreamingService
     \<Rightarrow> loop_end \<times> RealtimeStreamingService" where
  "process_audio_stream [] sid connection_id w = (StillRunning, w)"
| "process_audio_stream (e # es) sid connection_id w =
     (if rs_active_connections w connection_id = None then (ConnectionGone, w)
      else case process_cycle e sid connection_id w of
             (Some err, w') \<Rightarrow> (Stopped err, w')
           | (None, w') \<Rightarrow>
               process_audio_stream es sid connection_id
                 (fold (\<lambda>chunk. handle_audio_data (ce_now e) chunk sid connection_id)
                    (ce_arriving e) w'))"

text \<open>One pass of the loop of \<open>_stream_text_updates\<close>; \<open>None\<close> when the loop has ended.\<close>

definition stream_text_update ::
  "string \<Rightarrow> websocket \<Rightarrow> RealtimeStreamingService \<Rightarrow> RealtimeStreamingService option" where
  "stream_text_update sid ws w =
     (case text_queue w sid of
        None \<Rightarrow> None
      | Some [] \<Rightarrow> Some (rs_send_message ws Keepalive w)
      | Some (text_data # rest) \<Rightarrow>
          Some (rs_send_message ws (Transcription text_data)
                  (w\<lparr>text_queue := (text_queue w)(sid \<mapsto> rest)\<rparr>)))"

definition cleanup_connection ::
  "string \<Rightarrow> string \<Rightarrow> RealtimeStreamingService \<Rightarrow> RealtimeStreamingService" where
  "cleanup_connection connection_id sid w =
     (let w1 = w\<lparr>rs_active_connections := (rs_active_connections w)(connection_id := None)\<rparr>;
          w2 = (case rs_session_connections w1 sid of
                  None \<Rightarrow> w1
                | Some conns \<Rightarrow>
                    if set_discard connection_id conns = []
                    then w1\<lparr>rs_session_connections := (rs_session_connections w1)(sid := None)\<rparr>
                    else w1\<lparr>rs_session_connections := (rs_session_connections w1)
                              (sid \<mapsto> set_discard connection_id conns)\<rparr>);
          w3 = w2\<lparr>rs_connection_sessions := (rs_connection_sessions w2)(connection_id := None)\<rparr>;
          w4 = (if rs_session_connections w3 sid = None
                then w3\<lparr>rs_audio_buffers := (rs_audio_buffers w3)(sid := None),
                        text_queue := (text_queue w3)(sid := None),
                        text_subscribers := (text_subscribers w3)(sid := None)\<rparr>
                else w3)
      in w4\<lparr>rs_stat_active_connections := int (card (dom (rs_active_connections w4)))\<rparr>)"

text \<open>A session has a connection when its entry in \<open>session_connections\<close> is a non-empty set.\<close>

definition has_connection :: "RealtimeStreamingService \<Rightarrow> string \<Rightarrow> bool" where
  "has_connection w sid = (rs_connections_of w sid \<noteq> [])"

text \<open>
  The states the service can reach.  A handler opens its connection, then handles the
  messages of that connection while it is a member of its session, and ends with
  \<open>cleanup_connection\<close>; the passes of the two tasks of a connection run in between.
\<close>

inductive reachable :: "RealtimeStreamingService \<Rightarrow> bool" where
  start: "reachable init_service"
| opened: "reachable w \<Longrightarrow> reachable (snd (connection_opened now connection_id sid ws user w))"
| message: "reachable w \<Longrightarrow> connection_id \<in> set (rs_connections_of w sid)
     \<Longrightarrow> reachable (handle_websocket_message now ws msg connection_id sid w)"
| cycle: "reachable w \<Longrightarrow> reachable (snd (process_cycle e sid connection_id w))"
| text_update: "reachable w \<Longrightarrow> stream_text_update sid ws w = Some w' \<Longrightarrow> reachable w'"
| cleanup: "reachable w \<Longrightarrow> reachable (cleanup_connection connection_id sid w)"

text \<open>
  The invariant of the session tables: a session's audio buffer and its text queue
  exist exactly while the session has a connection, a subscriber set exists only for
  such a session, and no session is kept with an empty connection set.
\<close>

definition session_invariant :: "RealtimeStreamingService \<Rightarrow> bool" where
  "session_invariant w =
     (\<forall>sid. (rs_audio_buffers w sid \<noteq> None) = has_connection w sid
          \<and> (text_queue w sid \<noteq> None) = has_connection w sid
          \<and> (text_subscribers w sid \<noteq> None \<longrightarrow> has_connection w sid)
          \<and> rs_session_connections w sid \<noteq> Some [])"

text \<open>
  The states the connection manager can reach.  \<open>add_connection\<close> draws its session id
  from \<open>uuid.uuid4()\<close>, so the id it is given here is not the id of a session the manager
  holds.
\<close>

inductive manager_reachable :: "ConnectionManager \<Rightarrow> bool" where
  created: "manager_reachable init_manager"
| added: "manager_reachable m \<Longrightarrow> session_connections m sid = None
     \<Longrightarrow> add_connection now connection_id sid ws user m = Inr (ids, m')
     \<Longrightarrow> manager_reachable m'"
| removed: "manager_reachable m \<Longrightarrow> manager_reachable (snd (remove_connection connection_id m))"
| sent: "manager_reachable m
     \<Longrightarrow> manager_reachable (snd (send_message now connection_id message m))"
| broadcast: "manager_reachable m
     \<Longrightarrow> manager_reachable (snd (broadcast_to_session now sid message m))"

subsection \<open>Concrete monitor states used as test inputs\<close>

definition sample :: "string \<Rightarrow> real \<Rightarrow> ModelPerformanceMetrics" where
  "sample name c = \<lparr>model_name = name, timestamp = 0, accuracy = c, confidence = c,
     processing_time = 1, error_rate = 0, throughput = 1, latency_p95 = 1, latency_p99 = 1\<rparr>"

definition drifted :: "real \<Rightarrow> ModelMonitoringService" where
  "drifted c = init_monitor
     \<lparr>performance_history := [(''whisper_realtime'', replicate 10 (sample ''whisper_realtime'' c))],
      baseline_metrics :=
        [''whisper_realtime'' \<mapsto>
           calculate_metrics_average (replicate 10 (sample ''whisper_realtime'' (9 / 10)))]\<rparr>"

text \<open>
  Ten readings that differ in confidence, processing time and outcome, recorded for one
  model; the first three of them recorded for another.
\<close>

definition bootstrap_readings :: "(real \<times> real \<times> bool) list" where
  "bootstrap_readings =
     [(80 / 100, 3, False), (82 / 100, 1, False), (84 / 100, 4, False), (86 / 100, 10, True),
      (88 / 100, 5, False), (90 / 100, 9, False), (92 / 100, 2, False), (94 / 100, 6, False),
      (96 / 100, 8, True), (98 / 100, 7, False)]"

definition record_readings ::
  "string \<Rightarrow> (real \<times> real \<times> bool) list \<Rightarrow> ModelMonitoringService
     \<Rightarrow> ModelMonitoringService" where
  "record_readings name readings m =
     fold (\<lambda>r. record_model_performance 0 name (fst r) (fst r) (fst (snd r)) (snd (snd r)))
       readings m"

definition bootstrap_monitor :: ModelMonitoringService where
  "bootstrap_monitor =
     record_readings ''whisper_realtime'' bootstrap_readings
       (record_readings ''whisper_kafka'' (take 3 bootstrap_readings) init_monitor)"

text \<open>The samples that recording those readings leaves in a model's history.\<close>

definition recorded_samples ::
  "string \<Rightarrow> (real \<times> real \<times> bool) list \<Rightarrow> ModelPerformanceMetrics list" where
  "recorded_samples name readings =
     map (\<lambda>r. \<lparr>model_name = name, timestamp = 0, accuracy = fst r, confidence = fst r,
               processing_time = fst (snd r), error_rate = (if snd (snd r) then 1 else 0),
               throughput = 1 / fst (snd r), latency_p95 = fst (snd r),
               latency_p99 = fst (snd r)\<rparr>) readings"

subsection \<open>Concrete buffers and connections used as test inputs\<close>

definition ws_open :: websocket where
  "ws_open = \<lparr>ws_name = ''transport-b'', user_agent = ''Unknown'',
     remote_address = ''10.0.0.2'', accept_raises = False, on_send = Delivers\<rparr>"

definition ws_closed :: websocket where
  "ws_closed = \<lparr>ws_name = ''transport-a'', user_agent = ''Unknown'',
     remote_address = ''10.0.0.1'', accept_raises = False, on_send = RaisesConnectionClosed\<rparr>"

text \<open>A manager holding two registered connections.\<close>

definition manager_after :: "py_error + ((string \<times> string) \<times> ConnectionManager)
    \<Rightarrow> ConnectionManager" where
  "manager_after r = (case r of Inl e \<Rightarrow> init_manager | Inr (ids, m) \<Rightarrow> m)"

definition two_connections :: ConnectionManager where
  "two_connections =
     manager_after (add_connection 2 ''conn-b'' ''session-1'' ws_open None
       (manager_after (add_connection 1 ''conn-a'' ''session-1'' ws_closed None init_manager)))"

definition three_chunks :: "bytes list" where
  "three_chunks = [[1, 1], [2], [3, 3, 3]]"

text \<open>
  A callee that transcribes, and the installed service with a client whose API call
  raises.
\<close>

definition engine_hello :: engine where
  "engine_hello audio language =
     Returns \<lparr>res_text = Some ''hello world'', res_confidence = Some (93 / 100),
              res_language = Some language, res_error = None\<rparr>"

definition failing_service :: OpenAIWhisperService where
  "failing_service = \<lparr>client = Some (\<lambda>audio language. ApiRaises ''request timed out''),
     mock_text = ''Hello, this is a test transcription.'', mock_confidence = 9 / 10\<rparr>"


text \<open>
  A service with one open connection; the same after a subscription, after a binary
  frame of three bytes, and after an empty binary frame.
\<close>

definition one_session :: RealtimeStreamingService where
  "one_session = snd (connection_opened 1 ''conn-1'' ''session-1'' ws_open None init_service)"

definition subscribed_session :: RealtimeStreamingService where
  "subscribed_session =
     handle_websocket_message 2 ws_open (Text (Object (Some ''subscribe_text'')))
       ''conn-1'' ''session-1'' one_session"

definition buffered_session :: RealtimeStreamingService where
  "buffered_session =
     handle_websocket_message 3 ws_open (Binary [1, 2, 3]) ''conn-1'' ''session-1'' one_session"

definition empty_frame_session :: RealtimeStreamingService where
  "empty_frame_session =
     handle_websocket_message 3 ws_open (Binary []) ''conn-1'' ''session-1'' one_session"

definition pass_with :: "engine \<Rightarrow> cycle_env" where
  "pass_with eng = \<lparr>ce_now = 4, ce_ptime = 1 / 2, ce_engine = eng,
     ce_chunk_id = ''chunk-1'', ce_arriving = [[4, 5]]\<rparr>"

section \<open>Properties of the drift monitor\<close>

lemma set_deque_append: "set (deque_append n xs x) \<subseteq> insert x (set xs)"
proof -
  have "set (drop (length (xs @ [x]) - n) (xs @ [x])) \<subseteq> set (xs @ [x])"
    by (rule set_drop_subset)
  then show ?thesis by (simp add: deque_append_def Let_def)
qed

lemma check_metric_baseline [simp]:
  "baseline_metrics (check_metric now name cur base item m) = baseline_metrics m"
  by (simp add: check_metric_def Let_def)

lemma check_metric_alerts:
  assumes "a \<in> set (alert_history (check_metric now name cur base item m))"
  shows "a \<in> set (alert_history m) \<or> alert_model_name a = name"
proof -
  define x where "x = \<lparr>alert_model_name = name, metric_name = fst item,
     current_value = dict_get cur (fst item), baseline_value = dict_get base (fst item),
     drift_percentage = drift_fraction (fst item) (dict_get cur (fst item)) (dict_get base (fst item)),
     severity = determine_severity
       (drift_fraction (fst item) (dict_get cur (fst item)) (dict_get base (fst item))) (snd item),
     alert_timestamp = now\<rparr>"
  have "alert_history (check_metric now name cur base item m) = alert_history m
      \<or> alert_history (check_metric now name cur base item m)
          = deque_append 100 (alert_history m) x"
    by (simp add: check_metric_def Let_def x_def)
  moreover have "alert_model_name x = name" by (simp add: x_def)
  ultimately show ?thesis
    using assms set_deque_append[of 100 "alert_history m" x] by auto
qed

lemma fold_check_metric_baseline [simp]:
  "baseline_metrics (fold (check_metric now name cur base) items m) = baseline_metrics m"
  by (induction items arbitrary: m) auto

lemma fold_check_metric_alerts:
  "a \<in> set (alert_history (fold (check_metric now name cur base) items m)) \<Longrightarrow>
   a \<in> set (alert_history m) \<or> alert_model_name a = name"
  by (induction items arbitrary: m) (auto dest: check_metric_alerts)

lemma check_one_model_other_baseline:
  "fst item \<noteq> name \<Longrightarrow>
   baseline_metrics (check_one_model now item m) name = baseline_metrics m name"
  by (simp add: check_one_model_def Let_def)

lemma check_one_model_alerts:
  "a \<in> set (alert_history (check_one_model now item m)) \<Longrightarrow>
   a \<in> set (alert_history m) \<or> alert_model_name a = fst item"
  by (auto simp: check_one_model_def Let_def split: if_splits dest: fold_check_metric_alerts)

lemma fold_check_one_model_other:
  "name \<notin> fst ` set items \<Longrightarrow>
   baseline_metrics (fold (check_one_model now) items m) name = baseline_metrics m name"
  by (induction items arbitrary: m) (auto simp: check_one_model_other_baseline)

lemma fold_check_one_model_alerts:
  "name \<notin> fst ` set items \<Longrightarrow>
   a \<in> set (alert_history (fold (check_one_model now) items m)) \<Longrightarrow>
   alert_model_name a = name \<Longrightarrow> a \<in> set (alert_history m)"
proof (induction items arbitrary: m)
  case Nil
  then show ?case by simp
next
  case (Cons item items)
  from Cons.prems have "a \<in> set (alert_history (check_one_model now item m))"
    using Cons.IH[of "check_one_model now item m"] by simp
  with Cons.prems show ?case
    using check_one_model_alerts[of a now item m] by auto
qed

lemma check_one_model_short:
  "length history < 10 \<Longrightarrow> check_one_model now (name, history) m = m"
  by (simp add: check_one_model_def)

lemma calculate_metrics_average_nonempty:
  "metrics_list \<noteq> [] \<Longrightarrow> calculate_metrics_average metrics_list \<noteq> []"
  by (simp add: calculate_metrics_average_def)

lemma check_one_model_bootstrap:
  assumes "10 \<le> length history"
    and "baseline_metrics m name = None \<or> baseline_metrics m name = Some []"
  shows "check_one_model now (name, history) m =
     m\<lparr>baseline_metrics := (baseline_metrics m)
        (name \<mapsto> calculate_metrics_average (drop (length history - 100) history))\<rparr>"
  using assms by (auto simp: check_one_model_def Let_def)

lemma check_model_drift_bootstrap:
  assumes keys: "distinct (map fst (performance_history m))"
    and item: "(name, history) \<in> set (performance_history m)"
  shows "(length history < 10 \<longrightarrow>
            baseline_metrics (check_model_drift now m) name = baseline_metrics m name
          \<and> (\<forall>a \<in> set (alert_history (check_model_drift now m)).
                alert_model_name a = name \<longrightarrow> a \<in> set (alert_history m)))
       \<and> (10 \<le> length history \<and>
          (baseline_metrics m name = None \<or> baseline_metrics m name = Some []) \<longrightarrow>
            baseline_metrics (check_model_drift now m) name =
              Some (calculate_metrics_average (drop (length history - 100) history))
          \<and> (\<forall>a \<in> set (alert_history (check_model_drift now m)).
                alert_model_name a = name \<longrightarrow> a \<in> set (alert_history m)))"
proof -
  from item obtain pre post where split: "performance_history m = pre @ (name, history) # post"
    by (auto dest: split_list)
  with keys have pre: "name \<notin> fst ` set pre" and post: "name \<notin> fst ` set post"
    by auto
  define m1 where "m1 = fold (check_one_model now) pre m"
  define m2 where "m2 = check_one_model now (name, history) m1"
  have run: "check_model_drift now m = fold (check_one_model now) post m2"
    by (simp add: check_model_drift_def split m1_def m2_def)
  have b1: "baseline_metrics m1 name = baseline_metrics m name"
    unfolding m1_def using pre by (rule fold_check_one_model_other)
  have a1: "\<And>a. a \<in> set (alert_history m1) \<Longrightarrow> alert_model_name a = name
              \<Longrightarrow> a \<in> set (alert_history m)"
    unfolding m1_def using pre by (rule fold_check_one_model_alerts)
  have bfin: "baseline_metrics (check_model_drift now m) name = baseline_metrics m2 name"
    unfolding run using post by (rule fold_check_one_model_other)
  have afin: "\<And>a. a \<in> set (alert_history (check_model_drift now m)) \<Longrightarrow>
     alert_model_name a = name \<Longrightarrow> a \<in> set (alert_history m2)"
    unfolding run using post by (rule fold_check_one_model_alerts)
  show ?thesis
  proof (intro conjI impI)
    assume short: "length history < 10"
    then have "m2 = m1" unfolding m2_def by (rule check_one_model_short)
    with b1 bfin show "baseline_metrics (check_model_drift now m) name = baseline_metrics m name"
      by simp
    from \<open>m2 = m1\<close> a1 afin
    show "\<forall>a \<in> set (alert_history (check_model_drift now m)).
            alert_model_name a = name \<longrightarrow> a \<in> set (alert_history m)"
      by blast
  next
    assume boot: "10 \<le> length history \<and>
      (baseline_metrics m name = None \<or> baseline_metrics m name = Some [])"
    with b1 have "m2 = m1\<lparr>baseline_metrics := (baseline_metrics m1)
        (name \<mapsto> calculate_metrics_average (drop (length history - 100) history))\<rparr>"
      unfolding m2_def by (intro check_one_model_bootstrap) auto
    then have b2: "baseline_metrics m2 name =
        Some (calculate_metrics_average (drop (length history - 100) history))"
      and a2: "alert_history m2 = alert_history m1"
      by simp_all
    from b2 bfin show "baseline_metrics (check_model_drift now m) name =
        Some (calculate_metrics_average (drop (length history - 100) history))"
      by simp
    from a2 a1 afin
    show "\<forall>a \<in> set (alert_history (check_model_drift now m)).
            alert_model_name a = name \<longrightarrow> a \<in> set (alert_history m)"
      by auto
  qed
qed

lemma sample_average:
  "calculate_metrics_average (replicate 10 (sample name c)) =
     [(''accuracy'', c), (''confidence'', c), (''processing_time'', 1), (''error_rate'', 0),
      (''throughput'', 1), (''latency_p95'', 1), (''latency_p99'', 1)]"
  by (simp add: calculate_metrics_average_def np_mean_def np_percentile_def sample_def
      Let_def numeral_eq_Suc)

lemma calculate_metrics_average_written_out:
  assumes "win \<noteq> []"
  shows "calculate_metrics_average win =
     (let n = length win;
          s95 = sort (map latency_p95 win); r95 = 95 / 100 * real (n - 1);
          s99 = sort (map latency_p99 win); r99 = 99 / 100 * real (n - 1)
      in [(''accuracy'', sum_list (map accuracy win) / real n),
          (''confidence'', sum_list (map confidence win) / real n),
          (''processing_time'', sum_list (map processing_time win) / real n),
          (''error_rate'', sum_list (map error_rate win) / real n),
          (''throughput'', sum_list (map throughput win) / real n),
          (''latency_p95'', s95 ! nat \<lfloor>r95\<rfloor>
             + (r95 - real (nat \<lfloor>r95\<rfloor>))
               * (s95 ! min (nat \<lfloor>r95\<rfloor> + 1) (n - 1) - s95 ! nat \<lfloor>r95\<rfloor>)),
          (''latency_p99'', s99 ! nat \<lfloor>r99\<rfloor>
             + (r99 - real (nat \<lfloor>r99\<rfloor>))
               * (s99 ! min (nat \<lfloor>r99\<rfloor> + 1) (n - 1) - s99 ! nat \<lfloor>r99\<rfloor>))])"
  using assms
  by (simp add: calculate_metrics_average_def np_mean_def np_percentile_def Let_def)

text \<open>
  Claim C9.  In one run of the drift check over the tracked models (the keys of the
  history dictionary are distinct): a model whose history holds fewer than ten samples
  is skipped, so its baseline stays as it was and no alert carrying its name is added;
  a model with at least ten samples and no baseline (absent, or the empty dictionary)
  gets as baseline the averages over its current window, the last 100 samples: for
  accuracy, confidence, processing time, error rate and throughput the sum of the
  window's values divided by their number, for the two latencies the 95th and 99th
  percentile of the window's values, interpolated linearly between the two closest
  ranks; and no alert carrying its name is added in that run.
\<close>

theorem drift_bootstrap:
  assumes keys: "distinct (map fst (performance_history m))"
    and item: "(name, history) \<in> set (performance_history m)"
  shows "(length history < 10 \<longrightarrow>
            baseline_metrics (check_model_drift now m) name = baseline_metrics m name
          \<and> (\<forall>a \<in> set (alert_history (check_model_drift now m)).
                alert_model_name a = name \<longrightarrow> a \<in> set (alert_history m)))
       \<and> (10 \<le> length history \<and>
          (baseline_metrics m name = None \<or> baseline_metrics m name = Some []) \<longrightarrow>
            baseline_metrics (check_model_drift now m) name =
              (let win = drop (length history - 100) history;
                   n = length win;
                   s95 = sort (map latency_p95 win); r95 = 95 / 100 * real (n - 1);
                   s99 = sort (map latency_p99 win); r99 = 99 / 100 * real (n - 1)
               in Some
                 [(''accuracy'', sum_list (map accuracy win) / real n),
                  (''confidence'', sum_list (map confidence win) / real n),
                  (''processing_time'', sum_list (map processing_time win) / real n),
                  (''error_rate'', sum_list (map error_rate win) / real n),
                  (''throughput'', sum_list (map throughput win) / real n),
                  (''latency_p95'', s95 ! nat \<lfloor>r95\<rfloor>
                     + (r95 - real (nat \<lfloor>r95\<rfloor>))
                       * (s95 ! min (nat \<lfloor>r95\<rfloor> + 1) (n - 1) - s95 ! nat \<lfloor>r95\<rfloor>)),
                  (''latency_p99'', s99 ! nat \<lfloor>r99\<rfloor>
                     + (r99 - real (nat \<lfloor>r99\<rfloor>))
                       * (s99 ! min (nat \<lfloor>r99\<rfloor> + 1) (n - 1) - s99 ! nat \<lfloor>r99\<rfloor>))])
          \<and> (\<forall>a \<in> set (alert_history (check_model_drift now m)).
                alert_model_name a = name \<longrightarrow> a \<in> set (alert_history m)))"
proof -
  note step = check_model_drift_bootstrap[OF keys item, of now]
  have "calculate_metrics_average (drop (length history - 100) history) =
      (let win = drop (length history - 100) history;
           n = length win;
           s95 = sort (map latency_p95 win); r95 = 95 / 100 * real (n - 1);
           s99 = sort (map latency_p99 win); r99 = 99 / 100 * real (n - 1)
       in [(''accuracy'', sum_list (map accuracy win) / real n),
           (''confidence'', sum_list (map confidence win) / real n),
           (''processing_time'', sum_list (map processing_time win) / real n),
           (''error_rate'', sum_list (map error_rate win) / real n),
           (''throughput'', sum_list (map throughput win) / real n),
           (''latency_p95'', s95 ! nat \<lfloor>r95\<rfloor>
              + (r95 - real (nat \<lfloor>r95\<rfloor>))
                * (s95 ! min (nat \<lfloor>r95\<rfloor> + 1) (n - 1) - s95 ! nat \<lfloor>r95\<rfloor>)),
           (''latency_p99'', s99 ! nat \<lfloor>r99\<rfloor>
              + (r99 - real (nat \<lfloor>r99\<rfloor>))
                * (s99 ! min (nat \<lfloor>r99\<rfloor> + 1) (n - 1) - s99 ! nat \<lfloor>r99\<rfloor>))])"
    if "10 \<le> length history"
  proof -
    from that have "drop (length history - 100) history \<noteq> []" by auto
    then show ?thesis
      using calculate_metrics_average_written_out[of "drop (length history - 100) history"]
      by (simp add: Let_def)
  qed
  with step show ?thesis by (simp add: Let_def)
qed

text \<open>
  The theorem at a monitor tracking two models, one with three samples and one with ten
  samples that differ from each other.
\<close>

theorem drift_bootstrap_witness:
  "distinct (map fst (performance_history bootstrap_monitor))
   \<and> map (length \<circ> snd) (performance_history bootstrap_monitor) = [3, 10]
   \<and> baseline_metrics bootstrap_monitor ''whisper_realtime'' = None
   \<and> baseline_metrics (check_model_drift 0 bootstrap_monitor) ''whisper_realtime'' =
       Some [(''accuracy'', 89 / 100), (''confidence'', 89 / 100), (''processing_time'', 11 / 2),
             (''error_rate'', 1 / 5), (''throughput'', 7381 / 25200),
             (''latency_p95'', 191 / 20), (''latency_p99'', 991 / 100)]
   \<and> baseline_metrics (check_model_drift 0 bootstrap_monitor) ''whisper_kafka'' = None
   \<and> alert_history (check_model_drift 0 bootstrap_monitor) = []"
proof -
  have hist: "performance_history bootstrap_monitor =
      [(''whisper_kafka'', recorded_samples ''whisper_kafka'' (take 3 bootstrap_readings)),
       (''whisper_realtime'', recorded_samples ''whisper_realtime'' bootstrap_readings)]"
    by (simp add: bootstrap_monitor_def record_readings_def bootstrap_readings_def
        recorded_samples_def record_model_performance_def init_monitor_def deque_append_def)
  have keys: "distinct (map fst (performance_history bootstrap_monitor))"
    by (simp add: hist)
  have short: "(''whisper_kafka'', recorded_samples ''whisper_kafka'' (take 3 bootstrap_readings))
      \<in> set (performance_history bootstrap_monitor)"
    by (simp add: hist)
  have boot: "(''whisper_realtime'', recorded_samples ''whisper_realtime'' bootstrap_readings)
      \<in> set (performance_history bootstrap_monitor)"
    by (simp add: hist)
  have none: "baseline_metrics bootstrap_monitor ''whisper_realtime'' = None"
      "baseline_metrics bootstrap_monitor ''whisper_kafka'' = None"
      "alert_history bootstrap_monitor = []"
    by (simp_all add: bootstrap_monitor_def record_readings_def bootstrap_readings_def
        record_model_performance_def init_monitor_def)
  have lens: "map (length \<circ> snd) (performance_history bootstrap_monitor) = [3, 10]"
    by (simp add: hist recorded_samples_def bootstrap_readings_def)
  have run: "alert_history (check_model_drift 0 bootstrap_monitor) = []"
    by (simp add: check_model_drift_def hist check_one_model_def recorded_samples_def
        bootstrap_readings_def none Let_def)
  show ?thesis
    using drift_bootstrap [OF keys short, of 0] drift_bootstrap [OF keys boot, of 0]
      keys none run lens
    by (simp add: recorded_samples_def bootstrap_readings_def Let_def)
qed

text \<open>
  Claim C2, as the code classifies.  When the drift fraction \<open>d\<close> of a metric exceeds
  its threshold \<open>t\<close>, the drift check appends one alert whose severity is
  \<open>critical\<close> when \<open>d > 3t\<close>, \<open>high\<close> when \<open>2t < d \<le> 3t\<close>, \<open>medium\<close> when
  \<open>1.5t < d \<le> 2t\<close> and \<open>low\<close> otherwise: every bound is strict, so a drift of exactly
  three times the threshold is \<open>high\<close>.
\<close>

theorem severity_by_strict_multiples:
  assumes "dict_get baseline mname \<noteq> 0"
    and "d = drift_fraction mname (dict_get current mname) (dict_get baseline mname)"
    and "d > t"
  shows "alert_history (check_metric now name current baseline (mname, t) m) =
     deque_append 100 (alert_history m)
       \<lparr>alert_model_name = name, metric_name = mname,
        current_value = dict_get current mname, baseline_value = dict_get baseline mname,
        drift_percentage = d,
        severity = (if d > 3 * t then ''critical'' else if d > 2 * t then ''high''
                    else if d > 3 / 2 * t then ''medium'' else ''low''),
        alert_timestamp = now\<rparr>"
  using assms by (simp add: check_metric_def Let_def determine_severity_def mult.commute)

text \<open>
  The theorem at a confidence that fell from 1 to 0.6 under the threshold 0.1.
\<close>

theorem severity_by_strict_multiples_witness:
  "dict_get [(''confidence'', 1)] ''confidence'' \<noteq> 0
   \<and> drift_fraction ''confidence'' (dict_get [(''confidence'', 6 / 10)] ''confidence'')
        (dict_get [(''confidence'', 1)] ''confidence'') = 4 / 10
   \<and> (4 / 10 :: real) > 1 / 10
   \<and> alert_history (check_metric 7 ''whisper_realtime'' [(''confidence'', 6 / 10)]
         [(''confidence'', 1)] (''confidence'', 1 / 10) init_monitor) =
       [\<lparr>alert_model_name = ''whisper_realtime'', metric_name = ''confidence'',
         current_value = 6 / 10, baseline_value = 1, drift_percentage = 4 / 10,
         severity = ''critical'', alert_timestamp = 7\<rparr>]"
proof -
  have b: "dict_get [(''confidence'', 1)] ''confidence'' \<noteq> 0"
    by (simp add: dict_get_def)
  have d: "(4 / 10 :: real) = drift_fraction ''confidence''
      (dict_get [(''confidence'', 6 / 10)] ''confidence'')
      (dict_get [(''confidence'', 1)] ''confidence'')"
    by (simp add: dict_get_def drift_fraction_def)
  have t: "(4 / 10 :: real) > 1 / 10" by simp
  show ?thesis
    using severity_by_strict_multiples [OF b d t, of 7 "''whisper_realtime''" init_monitor] b d t
    by (simp add: dict_get_def init_monitor_def deque_append_def)
qed

text \<open>
  With the bounds read as \<open>\<ge>\<close> the classification fails: a confidence that fell from
  1 to 0.7 under the threshold 0.1 has drift exactly three times the threshold, and the
  appended alert is \<open>high\<close>, not \<open>critical\<close>.
\<close>

theorem severity_at_exact_multiple:
  "map drift_percentage (alert_history (check_metric 7 ''whisper_realtime''
       [(''confidence'', 7 / 10)] [(''confidence'', 1)] (''confidence'', 1 / 10) init_monitor))
     = [3 / 10]
   \<and> (3 / 10 :: real) > 1 / 10 \<and> (3 / 10 :: real) \<ge> 3 * (1 / 10)
   \<and> map severity (alert_history (check_metric 7 ''whisper_realtime''
       [(''confidence'', 7 / 10)] [(''confidence'', 1)] (''confidence'', 1 / 10) init_monitor))
     = [''high'']"
  by (simp add: check_metric_def dict_get_def drift_fraction_def determine_severity_def
      init_monitor_def deque_append_def Let_def)

text \<open>
  Claim C3, as the code classifies.  With a baseline confidence of 0.90 and the
  confidence threshold 0.10, a current window average of 0.70 (drift 2/9) appends an
  alert of severity \<open>high\<close>, and a current window average of 0.50 (drift 4/9) appends
  an alert of severity \<open>critical\<close>.
\<close>

theorem confidence_drift_scenarios:
  assumes "dict_get baseline ''confidence'' = 9 / 10"
    and "dict_get current_a ''confidence'' = 7 / 10"
    and "dict_get current_b ''confidence'' = 5 / 10"
  shows "alert_history (check_metric now name current_a baseline (''confidence'', 1 / 10) m) =
       deque_append 100 (alert_history m)
         \<lparr>alert_model_name = name, metric_name = ''confidence'',
          current_value = 7 / 10, baseline_value = 9 / 10, drift_percentage = 2 / 9,
          severity = ''high'', alert_timestamp = now\<rparr>
     \<and> alert_history (check_metric now name current_b baseline (''confidence'', 1 / 10) m) =
       deque_append 100 (alert_history m)
         \<lparr>alert_model_name = name, metric_name = ''confidence'',
          current_value = 5 / 10, baseline_value = 9 / 10, drift_percentage = 4 / 9,
          severity = ''critical'', alert_timestamp = now\<rparr>"
  unfolding check_metric_def Let_def fst_conv snd_conv assms
  by (simp add: drift_fraction_def determine_severity_def)

text \<open>
  The theorem at window averages computed from ten recorded samples each.
\<close>

theorem confidence_drift_scenarios_witness:
  "dict_get (calculate_metrics_average (replicate 10 (sample ''whisper_realtime'' (9 / 10))))
      ''confidence'' = 9 / 10
   \<and> dict_get (calculate_metrics_average (replicate 10 (sample ''whisper_realtime'' (7 / 10))))
      ''confidence'' = 7 / 10
   \<and> dict_get (calculate_metrics_average (replicate 10 (sample ''whisper_realtime'' (5 / 10))))
      ''confidence'' = 5 / 10
   \<and> map severity (alert_history (check_metric 7 ''whisper_realtime''
        (calculate_metrics_average (replicate 10 (sample ''whisper_realtime'' (7 / 10))))
        (calculate_metrics_average (replicate 10 (sample ''whisper_realtime'' (9 / 10))))
        (''confidence'', 1 / 10) init_monitor)) = [''high'']
   \<and> map severity (alert_history (check_metric 7 ''whisper_realtime''
        (calculate_metrics_average (replicate 10 (sample ''whisper_realtime'' (5 / 10))))
        (calculate_metrics_average (replicate 10 (sample ''whisper_realtime'' (9 / 10))))
        (''confidence'', 1 / 10) init_monitor)) = [''critical'']"
proof -
  have b: "dict_get (calculate_metrics_average
      (replicate 10 (sample ''whisper_realtime'' (9 / 10)))) ''confidence'' = 9 / 10"
    by (simp add: sample_average dict_get_def)
  have a7: "dict_get (calculate_metrics_average
      (replicate 10 (sample ''whisper_realtime'' (7 / 10)))) ''confidence'' = 7 / 10"
    by (simp add: sample_average dict_get_def)
  have a5: "dict_get (calculate_metrics_average
      (replicate 10 (sample ''whisper_realtime'' (5 / 10)))) ''confidence'' = 5 / 10"
    by (simp add: sample_average dict_get_def)
  show ?thesis
    using confidence_drift_scenarios [OF b a7 a5, of 7 "''whisper_realtime''" init_monitor] b a7 a5
    by (simp add: init_monitor_def deque_append_def)
qed

text \<open>
  A whole drift check at baseline confidence 0.90 and window average 0.70: the two
  alerts appended are \<open>critical\<close> for accuracy and \<open>high\<close> for confidence; none is
  \<open>medium\<close>.
\<close>

theorem confidence_drift_070_is_high:
  "map metric_name (alert_history (check_model_drift 7 (drifted (7 / 10))))
     = [''accuracy'', ''confidence'']
   \<and> map severity (alert_history (check_model_drift 7 (drifted (7 / 10))))
     = [''critical'', ''high'']"
  by (simp add: check_model_drift_def drifted_def check_one_model_def sample_average
      init_monitor_def default_drift_thresholds_def check_metric_def dict_get_def Let_def
      drift_fraction_def determine_severity_def deque_append_def)


section \<open>Properties of the audio stream buffer\<close>

lemma add_audio_chunk_step:
  assumes cap: "1 \<le> buffer_size p"
    and len: "int (length (buffer_of p sid)) \<le> buffer_size p"
  shows "fst (add_audio_chunk sid c p) = True"
    and "buffer_size (snd (add_audio_chunk sid c p)) = buffer_size p"
    and "buffer_of (snd (add_audio_chunk sid c p)) sid =
         drop (length (buffer_of p sid @ [c]) - nat (buffer_size p))
           (buffer_of p sid @ [c])"
proof -
  let ?old = "buffer_of p sid"
  show "fst (add_audio_chunk sid c p) = True"
    using cap by (auto simp: add_audio_chunk_def add_audio_chunk_body_def Let_def buffer_of_def
        split: option.splits)
  show "buffer_size (snd (add_audio_chunk sid c p)) = buffer_size p"
    by (auto simp: add_audio_chunk_def add_audio_chunk_body_def Let_def buffer_of_def
        split: option.splits)
  show "buffer_of (snd (add_audio_chunk sid c p)) sid =
         drop (length (?old @ [c]) - nat (buffer_size p)) (?old @ [c])"
  proof (cases "int (length ?old) \<ge> buffer_size p")
    case True
    with len have eq: "length ?old = nat (buffer_size p)" by simp
    with cap obtain x rest where old: "?old = x # rest" by (cases ?old) auto
    from eq show ?thesis using cap True old
      by (auto simp: add_audio_chunk_def add_audio_chunk_body_def Let_def buffer_of_def
          split: option.splits)
  next
    case False
    then have "length (?old @ [c]) - nat (buffer_size p) = 0" by simp
    with False show ?thesis
      by (auto simp: add_audio_chunk_def add_audio_chunk_body_def Let_def buffer_of_def
          split: option.splits)
  qed
qed

text \<open>
  With a capacity below one the buffer of a new session is at capacity while empty:
  \<open>pop(0)\<close> raises, the handler returns \<open>False\<close>, and the chunk is not stored.
\<close>

lemma add_audio_chunk_without_capacity:
  assumes "buffer_size p \<le> 0" and "buffer_of p sid = []"
  shows "fst (add_audio_chunk sid c p) = False"
    and "buffer_of (snd (add_audio_chunk sid c p)) sid = []"
  using assms
  by (auto simp: add_audio_chunk_def add_audio_chunk_body_def Let_def buffer_of_def
      split: option.splits)

lemma window_of_window:
  fixes n :: nat
  assumes "1 \<le> n"
  shows "drop (length (drop (length xs - n) xs @ ys) - n) (drop (length xs - n) xs @ ys)
       = drop (length (xs @ ys) - n) (xs @ ys)"
  by (cases "length xs \<le> n") (auto simp: min_def add.commute)

lemma add_audio_chunks_Cons:
  "snd (add_audio_chunks sid (c # cs) p) =
     snd (add_audio_chunks sid cs (snd (add_audio_chunk sid c p)))"
  "fst (add_audio_chunks sid (c # cs) p) =
     fst (add_audio_chunk sid c p)
       # fst (add_audio_chunks sid cs (snd (add_audio_chunk sid c p)))"
  by (simp_all split: prod.splits)

lemma add_audio_chunks_window:
  assumes "1 \<le> buffer_size p"
    and "int (length (buffer_of p sid)) \<le> buffer_size p"
  shows "buffer_of (snd (add_audio_chunks sid cs p)) sid =
           drop (length (buffer_of p sid @ cs) - nat (buffer_size p))
             (buffer_of p sid @ cs)
       \<and> buffer_size (snd (add_audio_chunks sid cs p)) = buffer_size p
       \<and> fst (add_audio_chunks sid cs p) = replicate (length cs) True"
  using assms
proof (induction cs arbitrary: p)
  case Nil
  then show ?case by simp
next
  case (Cons c cs)
  let ?p' = "snd (add_audio_chunk sid c p)"
  let ?old = "buffer_of p sid"
  let ?n = "nat (buffer_size p)"
  note step = add_audio_chunk_step[OF Cons.prems, of c]
  have cap': "1 \<le> buffer_size ?p'" using step(2) Cons.prems(1) by simp
  have len': "int (length (buffer_of ?p' sid)) \<le> buffer_size ?p'"
    using step(2,3) Cons.prems by simp
  note IH = Cons.IH[OF cap' len']
  have n: "1 \<le> ?n" using Cons.prems(1) by simp
  have "buffer_of (snd (add_audio_chunks sid (c # cs) p)) sid
      = drop (length (buffer_of ?p' sid @ cs) - ?n) (buffer_of ?p' sid @ cs)"
    unfolding add_audio_chunks_Cons using IH step(2) by simp
  also have "\<dots> = drop (length ((?old @ [c]) @ cs) - ?n) ((?old @ [c]) @ cs)"
    unfolding step(3) by (rule window_of_window[OF n])
  finally have "buffer_of (snd (add_audio_chunks sid (c # cs) p)) sid
      = drop (length (?old @ c # cs) - ?n) (?old @ c # cs)" by simp
  moreover have "buffer_size (snd (add_audio_chunks sid (c # cs) p)) = buffer_size p"
    unfolding add_audio_chunks_Cons using IH step(2) by simp
  moreover have "fst (add_audio_chunks sid (c # cs) p) = replicate (length (c # cs)) True"
    unfolding add_audio_chunks_Cons using IH step(1) by simp
  ultimately show ?case by blast
qed

lemma get_audio_chunks_buffer:
  "fst (get_audio_chunks sid clear_buffer p) = buffer_of p sid"
  by (simp add: get_audio_chunks_def buffer_of_def split: option.splits)

text \<open>
  Claim C5.  For a buffer of capacity \<open>C \<ge> 1\<close> that starts empty (or absent), after any
  sequence of \<open>k\<close> appends to a session the buffer holds exactly the last \<open>min k C\<close>
  chunks appended, in append order; every append returned \<open>True\<close>, and draining the
  buffer returns those chunks in that order.
\<close>

theorem buffer_keeps_most_recent:
  assumes "1 \<le> buffer_size p" and "buffer_of p sid = []"
  shows "buffer_of (snd (add_audio_chunks sid cs p)) sid
           = drop (length cs - nat (buffer_size p)) cs
       \<and> length (buffer_of (snd (add_audio_chunks sid cs p)) sid)
           = min (length cs) (nat (buffer_size p))
       \<and> fst (add_audio_chunks sid cs p) = replicate (length cs) True
       \<and> fst (get_audio_chunks sid True (snd (add_audio_chunks sid cs p)))
           = drop (length cs - nat (buffer_size p)) cs"
proof -
  have len: "int (length (buffer_of p sid)) \<le> buffer_size p"
    using assms by simp
  note w = add_audio_chunks_window[OF assms(1) len, of cs]
  have b: "buffer_of (snd (add_audio_chunks sid cs p)) sid
      = drop (length cs - nat (buffer_size p)) cs"
    using w assms(2) by simp
  moreover have "length (drop (length cs - nat (buffer_size p)) cs)
      = min (length cs) (nat (buffer_size p))"
    by auto
  ultimately show ?thesis
    using w by (simp add: get_audio_chunks_buffer)
qed

text \<open>The theorem at capacity two and three appended chunks: the first one is evicted.\<close>

theorem buffer_keeps_most_recent_witness:
  "1 \<le> buffer_size (init_processor 2)
   \<and> buffer_of (init_processor 2) ''session-1'' = []
   \<and> buffer_of (snd (add_audio_chunks ''session-1'' three_chunks (init_processor 2)))
        ''session-1'' = [[2], [3, 3, 3]]
   \<and> fst (add_audio_chunks ''session-1'' three_chunks (init_processor 2)) = [True, True, True]"
proof -
  have c: "1 \<le> buffer_size (init_processor 2)"
    by (simp add: init_processor_def)
  have e: "buffer_of (init_processor 2) ''session-1'' = []"
    by (simp add: init_processor_def buffer_of_def)
  show ?thesis
    using buffer_keeps_most_recent [OF c e, of three_chunks] c e
    by (simp add: init_processor_def three_chunks_def numeral_eq_Suc)
qed

section \<open>Properties of the connection manager\<close>

lemmas manager_defs = manager_after_def add_connection_def init_manager_def Let_def
   ws_open_def ws_closed_def set_add_def set_discard_def connections_of_def
   broadcast_to_session_def send_message_def remove_connection_def

lemma remove_connection_singletons:
  assumes "\<forall>s conns. session_connections m s = Some conns \<longrightarrow> length conns = 1"
  shows "\<forall>s conns. session_connections (snd (remove_connection c m)) s = Some conns
           \<longrightarrow> length conns = 1"
proof (intro allI impI)
  fix s conns
  assume after: "session_connections (snd (remove_connection c m)) s = Some conns"
  show "length conns = 1"
  proof (cases "session_connections m s = Some conns")
    case True
    with assms show ?thesis by blast
  next
    case False
    with after obtain old where old: "session_connections m s = Some old"
      and new: "conns = set_discard c old" and ne: "set_discard c old \<noteq> []"
      by (auto simp: remove_connection_def Let_def split: if_splits option.splits)
    from assms old have "length old = 1" by blast
    then obtain x where "old = [x]" by (cases old) auto
    with new ne show ?thesis by (auto simp: set_discard_def split: if_splits)
  qed
qed

lemma send_message_singletons:
  assumes "\<forall>s conns. session_connections m s = Some conns \<longrightarrow> length conns = 1"
  shows "\<forall>s conns. session_connections (snd (send_message now c msg m)) s = Some conns
           \<longrightarrow> length conns = 1"
proof (cases "session_connections (snd (send_message now c msg m)) = session_connections m")
  case True
  with assms show ?thesis by simp
next
  case False
  then have "snd (send_message now c msg m) = snd (remove_connection c m)"
    by (auto simp: send_message_def split: option.splits send_behaviour.splits)
  with remove_connection_singletons[OF assms] show ?thesis by simp
qed

lemma broadcast_loop_singletons:
  assumes "\<forall>s conns. session_connections m s = Some conns \<longrightarrow> length conns = 1"
  shows "\<forall>s conns. session_connections (snd (snd (broadcast_loop now sid msg n cs k m))) s
           = Some conns \<longrightarrow> length conns = 1"
  using assms
proof (induction cs arbitrary: k m)
  case Nil
  then show ?case by simp
next
  case (Cons c cs)
  show ?case
  proof (cases "length (connections_of m sid) \<noteq> n")
    case True
    with Cons.prems show ?thesis by simp
  next
    case False
    note sent = send_message_singletons[OF Cons.prems, of now c msg]
    from False show ?thesis
      using Cons.IH[OF sent] by (simp split: prod.splits)
  qed
qed

text \<open>
  No session of a reachable manager holds more than one connection: every call of
  \<open>add_connection\<close> opens a session of its own, and nothing else adds to a session.
\<close>

lemma sessions_hold_one_connection:
  assumes "manager_reachable m"
  shows "\<forall>s conns. session_connections m s = Some conns \<longrightarrow> length conns = 1"
  using assms
proof (induction rule: manager_reachable.induct)
  case created
  show ?case by (simp add: init_manager_def)
next
  case (added m sid now connection_id ws user ids m')
  then show ?case
    by (auto simp: add_connection_def Let_def set_add_def connections_of_def
        split: if_splits)
next
  case (removed m connection_id)
  from removed.IH show ?case by (rule remove_connection_singletons)
next
  case (sent m now connection_id message)
  from sent.IH show ?case by (rule send_message_singletons)
next
  case (broadcast m now sid message)
  show ?case
  proof (cases "session_connections m sid")
    case None
    with broadcast.IH show ?thesis by (simp add: broadcast_to_session_def)
  next
    case (Some conns)
    with broadcast_loop_singletons[OF broadcast.IH, of now sid message "length conns" conns 0]
    show ?thesis by (simp add: broadcast_to_session_def split: prod.splits)
  qed
qed

text \<open>
  Claim C10.  Removing a connection id that is not registered as an active connection
  returns \<open>None\<close> and leaves the manager exactly as it was: the three maps, the
  metadata and the statistics counters.
\<close>

theorem remove_connection_unknown:
  "active_connections m connection_id = None \<Longrightarrow> remove_connection connection_id m = (None, m)"
  by (simp add: remove_connection_def)

text \<open>The theorem at a manager with two registered connections and a third id.\<close>

theorem remove_connection_unknown_witness:
  "active_connections two_connections ''conn-z'' = None
   \<and> remove_connection ''conn-z'' two_connections = (None, two_connections)"
proof -
  have h: "active_connections two_connections ''conn-z'' = None"
    by (simp add: two_connections_def manager_defs)
  show ?thesis using remove_connection_unknown [OF h] h by simp
qed

section \<open>Properties of the queue bridge\<close>

lemma kafka_send_transcription_result_calls [simp]:
  "process_calls (kafka_send_transcription_result r k) = process_calls k"
  "audio_topic (kafka_send_transcription_result r k) = audio_topic k"
  "producer (kafka_send_transcription_result r k) = producer k"
  by (simp_all add: kafka_send_transcription_result_def split: option.splits)





section \<open>Properties of the streaming dispatcher and its sessions\<close>

lemma rs_send_message_tables [simp]:
  "rs_audio_buffers (rs_send_message ws d w) = rs_audio_buffers w"
  "text_queue (rs_send_message ws d w) = text_queue w"
  "text_subscribers (rs_send_message ws d w) = text_subscribers w"
  "rs_session_connections (rs_send_message ws d w) = rs_session_connections w"
  "rs_active_connections (rs_send_message ws d w) = rs_active_connections w"
  "rs_connection_sessions (rs_send_message ws d w) = rs_connection_sessions w"
  "model_monitoring_service (rs_send_message ws d w) = model_monitoring_service w"
  "engine_calls (rs_send_message ws d w) = engine_calls w"
  by (simp_all add: rs_send_message_def split: send_behaviour.splits)

lemma set_add_nonempty [simp]: "set_add x xs \<noteq> []"
  by (auto simp: set_add_def)

lemma invariant_same_tables:
  assumes "rs_session_connections w' = rs_session_connections w"
    and "\<And>s. (rs_audio_buffers w' s = None) = (rs_audio_buffers w s = None)"
    and "\<And>s. (text_queue w' s = None) = (text_queue w s = None)"
    and "\<And>s. (text_subscribers w' s = None) = (text_subscribers w s = None)"
  shows "session_invariant w' = session_invariant w"
  using assms by (simp add: session_invariant_def has_connection_def rs_connections_of_def)

lemma invariant_at:
  assumes "session_invariant w"
  shows "(rs_audio_buffers w s \<noteq> None) = has_connection w s"
    and "(text_queue w s \<noteq> None) = has_connection w s"
    and "text_subscribers w s \<noteq> None \<Longrightarrow> has_connection w s"
    and "rs_session_connections w s \<noteq> Some []"
  using assms unfolding session_invariant_def by blast+

lemma invariant_send [simp]:
  "session_invariant (rs_send_message ws d w) = session_invariant w"
  by (rule invariant_same_tables) simp_all

lemma invariant_audio:
  "session_invariant (handle_audio_data now d sid cid w) = session_invariant w"
proof (rule invariant_same_tables)
  show "rs_session_connections (handle_audio_data now d sid cid w) = rs_session_connections w"
    by (simp add: handle_audio_data_def Let_def split: option.splits)
  show "(rs_audio_buffers (handle_audio_data now d sid cid w) s = None)
      = (rs_audio_buffers w s = None)" for s
    by (simp add: handle_audio_data_def Let_def split: option.splits)
  show "(text_queue (handle_audio_data now d sid cid w) s = None) = (text_queue w s = None)" for s
    by (simp add: handle_audio_data_def Let_def split: option.splits)
  show "(text_subscribers (handle_audio_data now d sid cid w) s = None)
      = (text_subscribers w s = None)" for s
    by (simp add: handle_audio_data_def Let_def split: option.splits)
qed


lemma invariant_opened:
  assumes inv: "session_invariant w"
  shows "session_invariant (snd (connection_opened now cid sid ws user w))"
proof (cases "accept_raises ws")
  case True
  with inv show ?thesis by (simp add: connection_opened_def)
next
  case False
  let ?w' = "snd (connection_opened now cid sid ws user w)"
  have sc: "rs_session_connections ?w' =
      (rs_session_connections w)(sid \<mapsto> set_add cid (rs_connections_of w sid))"
    and ab: "rs_audio_buffers ?w' = (rs_audio_buffers w)(sid \<mapsto> [])"
    and tq: "text_queue ?w' = (text_queue w)(sid \<mapsto> [])"
    and ts: "text_subscribers ?w' = text_subscribers w"
    using False by (simp_all add: connection_opened_def Let_def rs_connections_of_def)
  show ?thesis
    unfolding session_invariant_def
  proof (intro allI)
    fix s
    note at = invariant_at[OF inv, of s]
    show "(rs_audio_buffers ?w' s \<noteq> None) = has_connection ?w' s
        \<and> (text_queue ?w' s \<noteq> None) = has_connection ?w' s
        \<and> (text_subscribers ?w' s \<noteq> None \<longrightarrow> has_connection ?w' s)
        \<and> rs_session_connections ?w' s \<noteq> Some []"
    proof (cases "s = sid")
      case True
      then show ?thesis
        by (simp add: sc ab tq ts has_connection_def rs_connections_of_def)
    next
      case False
      with at show ?thesis
        by (simp add: sc ab tq ts has_connection_def rs_connections_of_def)
    qed
  qed
qed

lemma invariant_text:
  assumes inv: "session_invariant w" and mem: "cid \<in> set (rs_connections_of w sid)"
  shows "session_invariant (handle_text_message ws t cid sid w)"
proof (cases "t = Some ''subscribe_text''")
  case False
  have "session_invariant (handle_text_message ws t cid sid w) = session_invariant w"
    using False
    by (intro invariant_same_tables)
       (simp_all add: handle_text_message_def send_error_def split: option.splits)
  with inv show ?thesis by simp
next
  case True
  let ?w' = "handle_text_message ws t cid sid w"
  have ts: "text_subscribers ?w' =
      (text_subscribers w)(sid \<mapsto> set_add cid (opt_get (text_subscribers w sid) []))"
    and rest: "rs_session_connections ?w' = rs_session_connections w"
      "rs_audio_buffers ?w' = rs_audio_buffers w" "text_queue ?w' = text_queue w"
    using True by (simp_all add: handle_text_message_def)
  from mem have has: "has_connection w sid"
    by (auto simp: has_connection_def)
  show ?thesis
    unfolding session_invariant_def
  proof (intro allI)
    fix s
    note at = invariant_at[OF inv, of s]
    show "(rs_audio_buffers ?w' s \<noteq> None) = has_connection ?w' s
        \<and> (text_queue ?w' s \<noteq> None) = has_connection ?w' s
        \<and> (text_subscribers ?w' s \<noteq> None \<longrightarrow> has_connection ?w' s)
        \<and> rs_session_connections ?w' s \<noteq> Some []"
      using at has
      by (cases "s = sid") (simp_all add: ts rest has_connection_def rs_connections_of_def)
  qed
qed

lemma invariant_message:
  assumes "session_invariant w" and "cid \<in> set (rs_connections_of w sid)"
  shows "session_invariant (handle_websocket_message now ws msg cid sid w)"
proof (cases msg)
  case (Binary d)
  with assms show ?thesis by (simp add: handle_websocket_message_def invariant_audio)
next
  case (Text j)
  with assms show ?thesis
    by (cases j) (simp_all add: handle_websocket_message_def send_error_def invariant_text)
qed


lemma send_transcription_result_tables [simp]:
  "rs_audio_buffers (send_transcription_result eng ci now sid r pt w) = rs_audio_buffers w"
  "text_subscribers (send_transcription_result eng ci now sid r pt w) = text_subscribers w"
  "rs_session_connections (send_transcription_result eng ci now sid r pt w)
     = rs_session_connections w"
  "rs_connection_sessions (send_transcription_result eng ci now sid r pt w)
     = rs_connection_sessions w"
  "model_monitoring_service (send_transcription_result eng ci now sid r pt w)
     = model_monitoring_service w"
  "engine_calls (send_transcription_result eng ci now sid r pt w) = engine_calls w"
  "(text_queue (send_transcription_result eng ci now sid r pt w) s = None)
     = (text_queue w s = None)"
  by (simp_all add: send_transcription_result_def Let_def split: option.splits)

lemma process_cycle_tables:
  "rs_session_connections (snd (process_cycle e sid cid w)) = rs_session_connections w"
  "(rs_audio_buffers (snd (process_cycle e sid cid w)) s = None) = (rs_audio_buffers w s = None)"
  "(text_queue (snd (process_cycle e sid cid w)) s = None) = (text_queue w s = None)"
  "(text_subscribers (snd (process_cycle e sid cid w)) s = None) = (text_subscribers w s = None)"
  by (simp_all add: process_cycle_def Let_def split: option.splits engine_outcome.splits)

lemma invariant_cycle:
  "session_invariant (snd (process_cycle e sid cid w)) = session_invariant w"
  by (rule invariant_same_tables) (simp_all add: process_cycle_tables)

lemma invariant_text_update:
  assumes "stream_text_update sid ws w = Some w'"
  shows "session_invariant w' = session_invariant w"
proof (rule invariant_same_tables)
  show "rs_session_connections w' = rs_session_connections w"
    using assms by (auto simp: stream_text_update_def split: option.splits list.splits)
  show "(rs_audio_buffers w' s = None) = (rs_audio_buffers w s = None)" for s
    using assms by (auto simp: stream_text_update_def split: option.splits list.splits)
  show "(text_queue w' s = None) = (text_queue w s = None)" for s
    using assms
    by (auto simp: stream_text_update_def split: option.splits list.splits if_splits)
  show "(text_subscribers w' s = None) = (text_subscribers w s = None)" for s
    using assms by (auto simp: stream_text_update_def split: option.splits list.splits)
qed


lemma invariant_cleanup:
  assumes inv: "session_invariant w"
  shows "session_invariant (cleanup_connection cid sid w)"
proof -
  let ?w' = "cleanup_connection cid sid w"
  let ?gone = "set_discard cid (rs_connections_of w sid) = []"
  have sc: "rs_session_connections ?w' =
      (if rs_session_connections w sid = None then rs_session_connections w
       else if ?gone then (rs_session_connections w)(sid := None)
       else (rs_session_connections w)(sid \<mapsto> set_discard cid (rs_connections_of w sid)))"
    by (simp add: cleanup_connection_def Let_def rs_connections_of_def split: option.splits)
  have tables: "rs_audio_buffers ?w' =
      (if rs_session_connections ?w' sid = None then (rs_audio_buffers w)(sid := None)
       else rs_audio_buffers w)"
    "text_queue ?w' =
      (if rs_session_connections ?w' sid = None then (text_queue w)(sid := None)
       else text_queue w)"
    "text_subscribers ?w' =
      (if rs_session_connections ?w' sid = None then (text_subscribers w)(sid := None)
       else text_subscribers w)"
    by (simp_all add: cleanup_connection_def Let_def rs_connections_of_def split: option.splits)
  show ?thesis
    unfolding session_invariant_def
  proof (intro allI)
    fix s
    note at = invariant_at[OF inv, of s]
    show "(rs_audio_buffers ?w' s \<noteq> None) = has_connection ?w' s
        \<and> (text_queue ?w' s \<noteq> None) = has_connection ?w' s
        \<and> (text_subscribers ?w' s \<noteq> None \<longrightarrow> has_connection ?w' s)
        \<and> rs_session_connections ?w' s \<noteq> Some []"
    proof (cases "s = sid")
      case False
      with at show ?thesis
        by (simp add: tables sc has_connection_def rs_connections_of_def)
    next
      case True
      with at show ?thesis
        by (cases "rs_session_connections w sid")
           (auto simp: tables sc has_connection_def rs_connections_of_def)
    qed
  qed
qed

lemma invariant_start: "session_invariant init_service"
  by (simp add: session_invariant_def init_service_def has_connection_def rs_connections_of_def)

lemma reachable_invariant: "reachable w \<Longrightarrow> session_invariant w"
proof (induction rule: reachable.induct)
  case start
  show ?case by (rule invariant_start)
next
  case (opened w now connection_id sid ws user)
  then show ?case by (simp add: invariant_opened)
next
  case (message w connection_id sid now ws msg)
  then show ?case by (simp add: invariant_message)
next
  case (cycle w e sid connection_id)
  then show ?case by (simp add: invariant_cycle)
next
  case (text_update w sid ws w')
  then show ?case by (simp add: invariant_text_update)
next
  case (cleanup w connection_id sid)
  then show ?case by (simp add: invariant_cleanup)
qed

lemmas service_defs = one_session_def subscribed_session_def buffered_session_def
  empty_frame_session_def connection_opened_def handle_websocket_message_def
  handle_text_message_def handle_audio_data_def rs_send_message_def init_service_def
  ws_open_def set_add_def set_discard_def rs_connections_of_def has_connection_def
  opt_get_def Let_def

lemma cleanup_last_connection:
  assumes "rs_connections_of w sid = [cid]"
  shows "rs_audio_buffers (cleanup_connection cid sid w) sid = None"
    and "text_queue (cleanup_connection cid sid w) sid = None"
    and "text_subscribers (cleanup_connection cid sid w) sid = None"
    and "rs_session_connections (cleanup_connection cid sid w) sid = None"
proof -
  from assms have "rs_session_connections w sid = Some [cid]"
    by (simp add: rs_connections_of_def split: option.splits)
  then show "rs_audio_buffers (cleanup_connection cid sid w) sid = None"
    and "text_queue (cleanup_connection cid sid w) sid = None"
    and "text_subscribers (cleanup_connection cid sid w) sid = None"
    and "rs_session_connections (cleanup_connection cid sid w) sid = None"
    by (simp_all add: cleanup_connection_def Let_def set_discard_def)
qed

lemma opened_allocates:
  assumes "\<not> accept_raises ws"
  shows "rs_audio_buffers (snd (connection_opened now cid sid ws user w)) sid = Some []"
    and "text_queue (snd (connection_opened now cid sid ws user w)) sid = Some []"
  using assms by (simp_all add: connection_opened_def Let_def)

text \<open>
  Claim C7, as the code keeps its tables.  In every reachable state a session's audio
  buffer and its text queue exist exactly when the session has a connection, and a text
  subscriber set exists only when it has one (the set is created by the first
  \<open>subscribe_text\<close> message, not with the connection).  Removing the session's only
  connection deletes the buffer, the queue and the subscriber set, and a connection
  opened afterwards under the same session id finds a new, empty buffer.
\<close>

theorem session_tables_follow_connections:
  assumes "reachable w"
  shows "(rs_audio_buffers w sid \<noteq> None) = has_connection w sid
       \<and> (text_queue w sid \<noteq> None) = has_connection w sid
       \<and> (text_subscribers w sid \<noteq> None \<longrightarrow> has_connection w sid)
       \<and> (rs_connections_of w sid = [cid] \<longrightarrow>
             rs_audio_buffers (cleanup_connection cid sid w) sid = None
           \<and> text_queue (cleanup_connection cid sid w) sid = None
           \<and> text_subscribers (cleanup_connection cid sid w) sid = None
           \<and> \<not> has_connection (cleanup_connection cid sid w) sid
           \<and> (\<not> accept_raises ws \<longrightarrow>
                 rs_audio_buffers (snd (connection_opened now cid' sid ws user
                   (cleanup_connection cid sid w))) sid = Some []))"
proof -
  from assms have inv: "session_invariant w" by (rule reachable_invariant)
  note at = invariant_at[OF inv, of sid]
  have gone: "\<not> has_connection (cleanup_connection cid sid w) sid"
    if "rs_connections_of w sid = [cid]"
    using cleanup_last_connection(4)[OF that]
    by (simp add: has_connection_def rs_connections_of_def)
  show ?thesis
    using at gone
    by (auto simp: cleanup_last_connection opened_allocates)
qed

text \<open>
  The theorem at a service with one connection that has subscribed to text updates.
\<close>

theorem session_tables_follow_connections_witness:
  "reachable subscribed_session
   \<and> has_connection subscribed_session ''session-1''
   \<and> rs_audio_buffers subscribed_session ''session-1'' = Some []
   \<and> text_subscribers subscribed_session ''session-1'' = Some [''conn-1'']
   \<and> rs_connections_of subscribed_session ''session-1'' = [''conn-1'']
   \<and> \<not> accept_raises ws_open
   \<and> text_subscribers (cleanup_connection ''conn-1'' ''session-1'' subscribed_session)
        ''session-1'' = None
   \<and> rs_audio_buffers (cleanup_connection ''conn-1'' ''session-1'' subscribed_session)
        ''session-1'' = None
   \<and> rs_audio_buffers (snd (connection_opened 9 ''conn-2'' ''session-1'' ws_open None
        (cleanup_connection ''conn-1'' ''session-1'' subscribed_session))) ''session-1'' = Some []"
proof -
  have r1: "reachable one_session"
    unfolding one_session_def by (intro reachable.opened reachable.start)
  have m: "''conn-1'' \<in> set (rs_connections_of one_session ''session-1'')"
    by (simp add: service_defs)
  have r: "reachable subscribed_session"
    unfolding subscribed_session_def using r1 m by (rule reachable.message)
  have facts: "has_connection subscribed_session ''session-1''"
    "rs_audio_buffers subscribed_session ''session-1'' = Some []"
    "text_subscribers subscribed_session ''session-1'' = Some [''conn-1'']"
    "rs_connections_of subscribed_session ''session-1'' = [''conn-1'']"
    "\<not> accept_raises ws_open"
    by (simp_all add: service_defs)
  show ?thesis
    using session_tables_follow_connections
      [OF r, of "''session-1''" "''conn-1''" ws_open 9 "''conn-2''" None] r facts
    by simp
qed

text \<open>
  A session right after its first connection was opened has a connection, a buffer and
  a queue, and no text subscriber set.
\<close>

theorem no_subscriber_set_at_first_connection:
  "reachable one_session
   \<and> has_connection one_session ''session-1''
   \<and> rs_audio_buffers one_session ''session-1'' = Some []
   \<and> text_queue one_session ''session-1'' = Some []
   \<and> text_subscribers one_session ''session-1'' = None"
proof -
  have "reachable one_session"
    unfolding one_session_def by (intro reachable.opened reachable.start)
  then show ?thesis by (simp add: service_defs)
qed

lemmas pass_defs = pass_with_def engine_hello_def failing_service_def
  transcribe_audio_bytes_def
  process_cycle_def send_transcription_result_def record_model_performance_def
  deque_append_def default_language_def init_monitor_def init_kafka_def strip_def is_space_def

lemma process_cycle_error_result:
  assumes "rs_audio_buffers w sid = Some chunks" and "chunks \<noteq> []"
    and "ce_engine e (concat chunks) default_language = Returns r"
    and "res_error r \<noteq> None"
  shows "fst (process_cycle e sid cid w) = None"
    and "model_monitoring_service (snd (process_cycle e sid cid w)) =
         record_model_performance (ce_now e) ''whisper_realtime''
           (opt_get (res_confidence r) 0) (opt_get (res_confidence r) 0) (ce_ptime e) True
           (model_monitoring_service w)"
    and "engine_calls (snd (process_cycle e sid cid w)) =
         engine_calls w @ [(concat chunks, default_language)]"
    and "rs_active_connections (snd (process_cycle e sid cid w)) = rs_active_connections w"
  using assms by (simp_all add: process_cycle_def Let_def split: option.splits)

text \<open>
  The installed engine raises nothing: an exception of the API call is returned as a
  result that carries \<open>error\<close>.
\<close>

lemma transcribe_audio_bytes_never_raises:
  "transcribe_audio_bytes svc audio language \<noteq> Raises msg"
  by (simp add: transcribe_audio_bytes_def split: option.splits api_outcome.splits)

lemma api_exception_is_error_result:
  assumes "client svc = Some api" and "api audio language = ApiRaises msg"
  shows "transcribe_audio_bytes svc audio language =
     Returns \<lparr>res_text = Some [], res_confidence = Some 0, res_language = Some language,
              res_error = Some msg\<rparr>"
  using assms by (simp add: transcribe_audio_bytes_def)

text \<open>
  Claim C1.  The dispatcher calls \<open>transcribe_audio_bytes\<close> of the installed service.  No
  call of it raises.  In every pass in which the call fails, that is, returns a result
  carrying \<open>error\<close>, the pass records a sample for the model with the error flag set
  (\<open>error_rate = 1\<close>) and raises nothing, and the loop goes on with its next pass after
  the sleep.
\<close>

theorem failed_engine_call_is_recorded_and_loop_continues:
  assumes "rs_active_connections w cid \<noteq> None"
    and "rs_audio_buffers w sid = Some chunks" and "chunks \<noteq> []"
    and "ce_engine e = transcribe_audio_bytes svc"
    and "transcribe_audio_bytes svc (concat chunks) default_language = Returns r"
    and "res_error r \<noteq> None"
  shows "ce_engine e audio language \<noteq> Raises msg
       \<and> fst (process_cycle e sid cid w) = None
       \<and> performance_history (model_monitoring_service (snd (process_cycle e sid cid w))) =
           history_append ''whisper_realtime''
             \<lparr>model_name = ''whisper_realtime'', timestamp = ce_now e,
              accuracy = opt_get (res_confidence r) 0,
              confidence = opt_get (res_confidence r) 0,
              processing_time = ce_ptime e, error_rate = 1,
              throughput = (if ce_ptime e > 0 then 1 / ce_ptime e else 0),
              latency_p95 = ce_ptime e, latency_p99 = ce_ptime e\<rparr>
             (performance_history (model_monitoring_service w))
       \<and> process_audio_stream (e # es) sid cid w =
           process_audio_stream es sid cid
             (fold (\<lambda>chunk. handle_audio_data (ce_now e) chunk sid cid) (ce_arriving e)
                (snd (process_cycle e sid cid w)))"
proof -
  have call: "ce_engine e (concat chunks) default_language = Returns r"
    using assms(4,5) by simp
  note pc = process_cycle_error_result[OF assms(2,3) call assms(6), of cid]
  have "process_audio_stream (e # es) sid cid w =
      process_audio_stream es sid cid
        (fold (\<lambda>chunk. handle_audio_data (ce_now e) chunk sid cid) (ce_arriving e)
           (snd (process_cycle e sid cid w)))"
    using assms(1) pc(1) by (cases "process_cycle e sid cid w") auto
  then show ?thesis
    using pc(1,2) assms(4)
    by (simp add: record_model_performance_def transcribe_audio_bytes_never_raises)
qed

text \<open>
  The theorem at a session with three buffered bytes and a service whose API call
  raises: the failure sample is recorded, and the second pass transcribes the chunk
  that arrived during the sleep.
\<close>

theorem failed_engine_call_is_recorded_and_loop_continues_witness:
  "rs_active_connections buffered_session ''conn-1'' \<noteq> None
   \<and> rs_audio_buffers buffered_session ''session-1'' = Some [[1, 2, 3]]
   \<and> transcribe_audio_bytes failing_service (concat [[1, 2, 3]]) default_language =
       Returns \<lparr>res_text = Some [], res_confidence = Some 0, res_language = Some ''en'',
                res_error = Some ''request timed out''\<rparr>
   \<and> map (map error_rate \<circ> snd) (performance_history (model_monitoring_service
        (snd (process_cycle (pass_with (transcribe_audio_bytes failing_service))
           ''session-1'' ''conn-1'' buffered_session)))) = [[1]]
   \<and> fst (process_audio_stream
        [pass_with (transcribe_audio_bytes failing_service), pass_with engine_hello]
        ''session-1'' ''conn-1'' buffered_session) = StillRunning
   \<and> engine_calls (snd (process_audio_stream
        [pass_with (transcribe_audio_bytes failing_service), pass_with engine_hello]
        ''session-1'' ''conn-1'' buffered_session)) = [([1, 2, 3], ''en''), ([4, 5], ''en'')]"
proof -
  let ?e = "pass_with (transcribe_audio_bytes failing_service)"
  have a: "rs_active_connections buffered_session ''conn-1'' \<noteq> None"
    by (simp add: service_defs)
  have b: "rs_audio_buffers buffered_session ''session-1'' = Some [[1, 2, 3]]"
    by (simp add: service_defs)
  have c: "[[1, 2, 3 :: nat]] \<noteq> []" by simp
  have d: "ce_engine ?e = transcribe_audio_bytes failing_service"
    by (simp add: pass_with_def)
  have r: "transcribe_audio_bytes failing_service (concat [[1, 2, 3]]) default_language =
      Returns \<lparr>res_text = Some [], res_confidence = Some 0, res_language = Some ''en'',
               res_error = Some ''request timed out''\<rparr>"
    by (simp add: transcribe_audio_bytes_def failing_service_def default_language_def)
  have f: "res_error \<lparr>res_text = Some [], res_confidence = Some 0, res_language = Some ''en'',
                       res_error = Some ''request timed out''\<rparr> \<noteq> None"
    by simp
  have run: "process_audio_stream [pass_with engine_hello] ''session-1'' ''conn-1''
       (fold (\<lambda>chunk. handle_audio_data (ce_now ?e) chunk ''session-1'' ''conn-1'')
          (ce_arriving ?e) (snd (process_cycle ?e ''session-1'' ''conn-1'' buffered_session)))
      = (StillRunning, snd (process_audio_stream [?e, pass_with engine_hello]
           ''session-1'' ''conn-1'' buffered_session))"
    by (simp add: service_defs pass_defs)
  have calls: "engine_calls (snd (process_audio_stream [?e, pass_with engine_hello]
       ''session-1'' ''conn-1'' buffered_session)) = [([1, 2, 3], ''en''), ([4, 5], ''en'')]"
    by (simp add: service_defs pass_defs)
  show ?thesis
    using failed_engine_call_is_recorded_and_loop_continues
      [OF a b c d r f, where es = "[pass_with engine_hello]"] a b r run calls
    by (simp add: service_defs pass_defs)
qed

text \<open>A pass that finds no chunk in the buffer changes nothing and calls nothing.\<close>

lemma idle_pass:
  assumes "rs_audio_buffers w sid = None \<or> rs_audio_buffers w sid = Some []"
  shows "process_cycle e sid cid w = (None, w)"
  using assms by (auto simp: process_cycle_def Let_def)

text \<open>
  Claim C8, evaluated on the code.  The buffer holds one chunk of zero bytes, received
  as an empty binary frame.  The pass tests the list of chunks, not the combined
  bytes: it calls the engine with zero bytes of audio and records a sample.
\<close>

theorem zero_byte_chunk_reaches_engine:
  "reachable empty_frame_session
   \<and> rs_audio_buffers empty_frame_session ''session-1'' = Some [[]]
   \<and> engine_calls empty_frame_session = []
   \<and> performance_history (model_monitoring_service empty_frame_session) = []
   \<and> engine_calls (snd (process_cycle (pass_with engine_hello) ''session-1'' ''conn-1''
        empty_frame_session)) = [([], ''en'')]
   \<and> map (length \<circ> snd) (performance_history (model_monitoring_service
        (snd (process_cycle (pass_with engine_hello) ''session-1'' ''conn-1''
           empty_frame_session)))) = [1]"
proof -
  have r1: "reachable one_session"
    unfolding one_session_def by (intro reachable.opened reachable.start)
  have m: "''conn-1'' \<in> set (rs_connections_of one_session ''session-1'')"
    by (simp add: service_defs)
  have "reachable empty_frame_session"
    unfolding empty_frame_session_def using r1 m by (rule reachable.message)
  then show ?thesis
    by (simp add: service_defs pass_defs)
qed

end
